theory Spec2Isabelle
  imports Complex_Main "HOL-Library.Char_ord" "HOL-Library.List_Lexorder"
begin

section \<open>JavaScript primitives used by the booking components\<close>

text \<open>
  The components are TypeScript modules for a browser.  Numbers that the code keeps
  integral (epoch milliseconds, minutes, hours, days) are modelled as \<open>int\<close>; the one
  place where the code divides (\<open>minutes / 60\<close>) is modelled in \<open>rat\<close>.
\<close>

text \<open>The remainder operator \<open>%\<close>: the result takes the sign of the dividend.\<close>

definition js_rem :: "int \<Rightarrow> int \<Rightarrow> int" where
  "js_rem a b = sgn a * (\<bar>a\<bar> mod \<bar>b\<bar>)"

text \<open>
  Interpolating an integral number into a template literal gives its decimal digits,
  with a leading minus sign below zero (plain decimal notation is what JavaScript prints
  for every integer below \<open>10^21\<close>).
\<close>

definition digit_char :: "nat \<Rightarrow> char" where
  "digit_char d = char_of (48 + d)"

fun digits :: "nat \<Rightarrow> string" where
  "digits n = (if n < 10 then [digit_char n] else digits (n div 10) @ [digit_char (n mod 10)])"

declare digits.simps [simp del]

definition Number_toString :: "int \<Rightarrow> string" where
  "Number_toString n = (if n < 0 then CHR ''-'' # digits (nat (- n)) else digits (nat n))"

definition MAX_SAFE_INTEGER :: int where
  "MAX_SAFE_INTEGER = 2 ^ 53 - 1"

section \<open>Types and interfaces shared by the components\<close>

record Duration =
  days :: int
  hours :: int
  minutes :: int

section \<open>Utility functions\<close>

text \<open>
  \<open>durationToISO\<close> of the flexible component
  (\<open>components/framer/flexible/component.tsx\<close>): \<open>`PT${duration.hours}H${duration.minutes}M`\<close>.
\<close>

definition Flexible_durationToISO :: "Duration \<Rightarrow> string" where
  "Flexible_durationToISO duration =
     ''PT'' @ Number_toString (hours duration) @ ''H'' @ Number_toString (minutes duration) @ ''M''"

text \<open>
  \<open>durationToISO\<close> of the date-range (rental) component:
  \<open>`PT${duration.days * 24 + duration.hours}H${duration.minutes}M`\<close>.
\<close>

definition Rental_durationToISO :: "Duration \<Rightarrow> string" where
  "Rental_durationToISO duration =
     ''PT'' @ Number_toString (days duration * 24 + hours duration) @ ''H''
       @ Number_toString (minutes duration) @ ''M''"

text \<open>
  \<open>calculateDuration\<close> of the rental component, on the epoch milliseconds of its two dates:
  \<open>Math.floor\<close> of a quotient is \<open>div\<close>, \<open>%\<close> is \<open>js_rem\<close>.
\<close>

definition calculateDuration :: "int \<Rightarrow> int \<Rightarrow> Duration" where
  "calculateDuration startDateTime endDateTime =
     (let diffMs = endDateTime - startDateTime;
          totalMinutes = diffMs div (1000 * 60);
          hours = totalMinutes div 60;
          minutes = js_rem totalMinutes 60;
          days = hours div 24
      in \<lparr>days = days, hours = js_rem hours 24, minutes = minutes\<rparr>)"

text \<open>
  The duration picker of the flexible component keeps its durations as total minutes:
  \<open>convertToMinutes\<close> and \<open>convertToHoursAndMinutes\<close>.
\<close>

definition convertToMinutes :: "Duration \<Rightarrow> int" where
  "convertToMinutes duration = hours duration * 60 + minutes duration"

definition convertToHoursAndMinutes :: "int \<Rightarrow> Duration" where
  "convertToHoursAndMinutes totalMinutes =
     \<lparr>days = 0, hours = totalMinutes div 60, minutes = js_rem totalMinutes 60\<rparr>"

section \<open>Reading an ISO-8601 duration\<close>

text \<open>
  The reader of the strings that \<open>durationToISO\<close> writes, following ISO 8601: a time
  designator \<open>PT\<close>, an unsigned decimal number of hours before \<open>H\<close>, an unsigned decimal
  number of minutes before \<open>M\<close>.  The result is the length in minutes; any other string
  is not read.
\<close>

definition is_digit :: "char \<Rightarrow> bool" where
  "is_digit c \<longleftrightarrow> 48 \<le> (of_char c :: nat) \<and> (of_char c :: nat) \<le> 57"

definition read_digits :: "string \<Rightarrow> nat" where
  "read_digits s = foldl (\<lambda>a c. 10 * a + ((of_char c :: nat) - 48)) 0 s"

definition iso8601_minutes :: "string \<Rightarrow> int option" where
  "iso8601_minutes s =
     (case s of
        p # t # r \<Rightarrow>
          (let hs = takeWhile is_digit r; r1 = dropWhile is_digit r
           in case r1 of
                h # r2 \<Rightarrow>
                  (let ms = takeWhile is_digit r2; r3 = dropWhile is_digit r2
                   in if p = CHR ''P'' \<and> t = CHR ''T'' \<and> h = CHR ''H'' \<and> r3 = ''M''
                         \<and> hs \<noteq> [] \<and> ms \<noteq> []
                      then Some (int (read_digits hs) * 60 + int (read_digits ms))
                      else None)
              | [] \<Rightarrow> None)
      | _ \<Rightarrow> None)"

text \<open>A duration is valid when its parts are non-negative integers that JavaScript holds exactly.\<close>

definition valid_Duration :: "Duration \<Rightarrow> bool" where
  "valid_Duration d \<longleftrightarrow>
     0 \<le> days d \<and> 0 \<le> hours d \<and> 0 \<le> minutes d
     \<and> days d * 24 + hours d \<le> MAX_SAFE_INTEGER \<and> minutes d \<le> MAX_SAFE_INTEGER"

section \<open>Data of the booking flow\<close>

text \<open>
  \<open>TimeSlot\<close> and \<open>TimeSlotWithResource\<close> as the components declare them.  The start and
  end of a slot are the strings the API sends; \<open>new Date(s).getTime()\<close> is the host's and
  is a parameter \<open>getTime\<close> of every function that reads a slot's instant (the API sends
  valid timestamps, so the instant is a number).
\<close>

record Price =
  amount :: int
  currency :: string

record TimeSlot =
  startTime :: string
  endTime :: string
  price :: "Price option"

record TimeSlotWithResource =
  timeSlot :: TimeSlot
  resourceID :: string

datatype FieldType = Text | Number | Multiselect | Select | Phone | Url | Textarea

record CustomFormField =
  placeholderText :: string
  type :: FieldType
  inputWidth :: string
  required :: bool
  labelText :: string
  errorText :: string
  options :: "string option"

record FormValidation =
  isValid :: bool
  errors :: "string \<rightharpoonup> string"

text \<open>The step enumerations of the flexible and of the date-range (rental) component.\<close>

datatype Flexible_BookingStep = Date | CustomForm | Guest | Form | Success | Pending | Error

datatype Rental_BookingStep = DateRange | Form | Success | Pending | Error

text \<open>
  \<open>DateRange\<close> of the rental component.  A \<open>Date\<close> is its epoch milliseconds, \<open>null\<close>
  is \<open>None\<close>; the times of day are the strings of the time select (\<open>HH:00\<close>).
\<close>

record DateRange =
  startDate :: "int option"
  endDate :: "int option"
  startTime :: string
  endTime :: string

text \<open>The responses of the external SDK that the handlers read.\<close>

record TimesResponse =
  times :: "(string \<times> TimeSlot list) list"

record DatesResponse =
  dates :: "(string \<times> string list) list"

record BookingResponse =
  paymentURL :: "string option"
  status :: string

text \<open>
  The values a form input holds: nothing yet (\<open>undefined\<close>), the string of a text input
  or select, or the array of strings of a multiselect.
\<close>

datatype FieldValue = Undefined | Str string | Arr "string list"

text \<open>
  The properties both components read in the handlers modelled here:
  \<open>props.bkla.companyID\<close>, \<open>props.serviceID\<close>, \<open>props.guestMode\<close>, \<open>props.customForm.fields\<close>
  (which may be undefined), \<open>props.guestModeTexts\<close> and \<open>props.routes\<close>.
\<close>

record BookingProps =
  companyID :: string
  serviceID :: string
  guestMode :: bool
  customForm_fields :: "CustomFormField list option"
  guestModeTexts_firstName :: string
  guestModeTexts_lastName :: string
  guestModeTexts_email :: string
  routes_confirmed :: string
  routes_pending :: string

section \<open>State and effects\<close>

text \<open>
  What a handler does outside the component's state: the address assigned to
  \<open>window.location.href\<close>, the route ids passed to the router's \<open>navigate\<close>, the SDK
  endpoints called, and the lines written with \<open>console.error\<close>.  The request objects are
  built with the host's date formatting and are not part of the model; the outcome of a
  call (the response, or the thrown error as the string it prints as) is an argument of
  the handler.
\<close>

datatype ApiCall = ServicesGetDates | ServicesGetTimes | BookingsRequest

record World =
  location_href :: "string option"
  navigated :: "string list"
  apiCalls :: "ApiCall list"
  console :: "string list"

text \<open>The state variables that both components declare, over the component's step type.\<close>

record 'step Widget = World +
  currentStep :: 'step
  loading :: bool
  submiting :: bool
  error :: "string option"
  serviceLoaded :: bool
  availableDates :: "string list"

text \<open>
  The form view: its properties (\<open>fields\<close>, here \<open>props_fields\<close>, \<open>guestFormEnabled\<close>
  and the three guest placeholders) and its own state (\<open>formData\<close>, \<open>guestData\<close>,
  \<open>formErrors\<close>).
\<close>

record FormView =
  props_fields :: "CustomFormField list"
  guestFormEnabled :: bool
  firstName :: string
  lastName :: string
  email :: string
  formData :: "string \<rightharpoonup> FieldValue"
  guestData :: "string \<rightharpoonup> FieldValue"
  formErrors :: "string \<rightharpoonup> string"

text \<open>
  The flexible component: the slots of the chosen day, the chosen slot, the chosen
  duration, and the form view behind \<open>formRef\<close> (mounted in the form step only).
\<close>

record FlexibleBooking = "Flexible_BookingStep Widget" +
  timeSlots :: "TimeSlotWithResource list"
  selectedTime :: "TimeSlotWithResource option"
  currentDuration :: Duration
  formRef :: "FormView option"

text \<open>The rental component: the chosen range, the matched slot and the service's time zone.\<close>

record RentalBooking = "Rental_BookingStep Widget" +
  dateRange :: DateRange
  selectedSlot :: "TimeSlotWithResource option"
  serviceTimezone :: string
  rental_formRef :: "FormView option"

section \<open>Routing\<close>

text \<open>
  \<open>getRouteId\<close>: the key of the first route whose path is the given one, the empty string
  when there is none.  The router's routes are the entries of its object, in the order
  \<open>Object.entries\<close> gives them, each with its path.
\<close>

fun getRouteId :: "(string \<times> string) list \<Rightarrow> string \<Rightarrow> string" where
  "getRouteId [] path = ''''"
| "getRouteId ((key, value_path) # allRoute) path =
     (if value_path = path then key else getRouteId allRoute path)"

definition navigate :: "string \<Rightarrow> ('a World_scheme) \<Rightarrow> ('a World_scheme)" where
  "navigate routeId w = w\<lparr>navigated := navigated w @ [routeId]\<rparr>"

definition proceedToRoute ::
  "(string \<times> string) list \<Rightarrow> string \<Rightarrow> ('a World_scheme) \<Rightarrow> ('a World_scheme)" where
  "proceedToRoute routes route w =
     (let routeId = getRouteId routes route;
          routeId = (if routeId = '''' then getRouteId routes ''/'' else routeId)
      in navigate routeId w)"

text \<open>
  The effect on \<open>currentStep\<close>, and when React runs it: after a render in which
  \<open>currentStep\<close> differs from the one of the render before.
\<close>

definition Flexible_currentStep_effect ::
  "BookingProps \<Rightarrow> (string \<times> string) list \<Rightarrow> FlexibleBooking \<Rightarrow> FlexibleBooking" where
  "Flexible_currentStep_effect props routes st =
     (if currentStep st = Flexible_BookingStep.Success
        then proceedToRoute routes (routes_confirmed props) st
      else if currentStep st = Flexible_BookingStep.Pending
        then proceedToRoute routes (routes_pending props) st
      else st)"

definition Flexible_render ::
  "BookingProps \<Rightarrow> (string \<times> string) list \<Rightarrow> FlexibleBooking \<Rightarrow> FlexibleBooking
     \<Rightarrow> FlexibleBooking" where
  "Flexible_render props routes before after =
     (if currentStep after \<noteq> currentStep before
        then Flexible_currentStep_effect props routes after
      else after)"

definition Rental_currentStep_effect ::
  "BookingProps \<Rightarrow> (string \<times> string) list \<Rightarrow> RentalBooking \<Rightarrow> RentalBooking" where
  "Rental_currentStep_effect props routes st =
     (if currentStep st = Rental_BookingStep.Success
        then proceedToRoute routes (routes_confirmed props) st
      else if currentStep st = Rental_BookingStep.Pending
        then proceedToRoute routes (routes_pending props) st
      else st)"

definition Rental_render ::
  "BookingProps \<Rightarrow> (string \<times> string) list \<Rightarrow> RentalBooking \<Rightarrow> RentalBooking
     \<Rightarrow> RentalBooking" where
  "Rental_render props routes before after =
     (if currentStep after \<noteq> currentStep before
        then Rental_currentStep_effect props routes after
      else after)"

section \<open>Form validation\<close>

text \<open>
  The coercions JavaScript applies to a field value: its truthiness, its \<open>length\<close>, and
  the string it becomes where a string is expected (an array joins its elements with
  commas).
\<close>

fun truthy :: "FieldValue \<Rightarrow> bool" where
  "truthy Undefined = False"
| "truthy (Str s) = (s \<noteq> [])"
| "truthy (Arr xs) = True"

fun value_length :: "FieldValue \<Rightarrow> nat" where
  "value_length Undefined = 0"
| "value_length (Str s) = length s"
| "value_length (Arr xs) = length xs"

fun join_comma :: "string list \<Rightarrow> string" where
  "join_comma [] = []"
| "join_comma [x] = x"
| "join_comma (x # y # ys) = x @ '','' @ join_comma (y # ys)"

fun toString :: "FieldValue \<Rightarrow> string" where
  "toString Undefined = ''undefined''"
| "toString (Str s) = s"
| "toString (Arr xs) = join_comma xs"

text \<open>
  The phone pattern \<open>/^\+?[\d\s-()]+$/\<close>: an optional plus sign, then one or more
  characters that are a digit, white space, a hyphen or a parenthesis, up to the end of
  the string (white space is the ASCII part of \<open>\s\<close>).
\<close>

definition is_space :: "char \<Rightarrow> bool" where
  "is_space c \<longleftrightarrow> (of_char c :: nat) \<in> {9, 10, 11, 12, 13, 32}"

definition phone_char :: "char \<Rightarrow> bool" where
  "phone_char c \<longleftrightarrow> is_digit c \<or> is_space c \<or> c = CHR ''-'' \<or> c = CHR ''('' \<or> c = CHR '')''"

definition phone_pattern :: "string \<Rightarrow> bool" where
  "phone_pattern s =
     (let r = (case s of [] \<Rightarrow> [] | c # t \<Rightarrow> if c = CHR ''+'' then t else s)
      in r \<noteq> [] \<and> list_all phone_char r)"

text \<open>
  \<open>validateField\<close> of the form view.  \<open>new URL(value)\<close> and \<open>isNaN(value)\<close> are the
  host's: \<open>URL_parses\<close> says whether the constructor returns rather than throws, \<open>isNaN\<close>
  is the host's function on the string of the value.
\<close>

definition validateField ::
  "(string \<Rightarrow> bool) \<Rightarrow> (string \<Rightarrow> bool) \<Rightarrow> CustomFormField \<Rightarrow> FieldValue \<Rightarrow> string option" where
  "validateField URL_parses isNaN field value =
     (if required field \<and> (\<not> truthy value \<or> value_length value = 0)
        then Some (if errorText field \<noteq> '''' then errorText field else ''This field is required'')
      else if \<not> required field then None
      else (case type field of
              Url \<Rightarrow>
                if URL_parses (toString value) then None else Some ''Please enter a valid URL''
            | Number \<Rightarrow>
                if truthy value \<and> isNaN (toString value)
                then Some ''Please enter a valid number'' else None
            | Phone \<Rightarrow>
                if truthy value \<and> \<not> phone_pattern (toString value)
                then Some ''Please enter a valid phone number'' else None
            | _ \<Rightarrow> None))"

definition guestFields :: "FormView \<Rightarrow> CustomFormField list" where
  "guestFields fv =
     (if guestFormEnabled fv
      then [\<lparr>placeholderText = firstName fv, type = Text, inputWidth = ''auto / span 1'',
              required = True, labelText = ''firstName'',
              errorText = ''First name is required'', options = None\<rparr>,
            \<lparr>placeholderText = lastName fv, type = Text, inputWidth = ''auto / span 1'',
              required = False, labelText = ''lastName'',
              errorText = ''Last name is required'', options = None\<rparr>,
            \<lparr>placeholderText = email fv, type = Text, inputWidth = ''auto / span 2'',
              required = True, labelText = ''email'',
              errorText = ''Email is required'', options = None\<rparr>]
      else [])"

definition lookup_value :: "(string \<rightharpoonup> FieldValue) \<Rightarrow> string \<Rightarrow> FieldValue" where
  "lookup_value m k = (case m k of None \<Rightarrow> Undefined | Some v \<Rightarrow> v)"

text \<open>
  One round of the \<open>forEach\<close> of \<open>validateForm\<close>, on the pair \<open>(errors, isValid)\<close>: the
  value of the field is read from the guest data or from the form data, by its label.
\<close>

definition isGuestField :: "string \<Rightarrow> bool" where
  "isGuestField label \<longleftrightarrow> label \<in> set [''firstName'', ''lastName'', ''email'']"

definition field_value :: "FormView \<Rightarrow> CustomFormField \<Rightarrow> FieldValue" where
  "field_value fv field =
     (if isGuestField (labelText field) then lookup_value (guestData fv) (labelText field)
      else lookup_value (formData fv) (labelText field))"

definition validateForm_field ::
  "(string \<Rightarrow> bool) \<Rightarrow> (string \<Rightarrow> bool) \<Rightarrow> FormView
     \<Rightarrow> (string \<rightharpoonup> string) \<times> bool \<Rightarrow> CustomFormField \<Rightarrow> (string \<rightharpoonup> string) \<times> bool" where
  "validateForm_field URL_parses isNaN fv acc field =
     (case validateField URL_parses isNaN field (field_value fv field) of
        None \<Rightarrow> acc
      | Some message \<Rightarrow>
          if message \<noteq> '''' then ((fst acc)(labelText field \<mapsto> message), False) else acc)"

definition validateForm ::
  "(string \<Rightarrow> bool) \<Rightarrow> (string \<Rightarrow> bool) \<Rightarrow> FormView \<Rightarrow> FormValidation \<times> FormView" where
  "validateForm URL_parses isNaN fv =
     (let allFields = guestFields fv @ props_fields fv;
          result = foldl (validateForm_field URL_parses isNaN fv) (Map.empty, True) allFields
      in (\<lparr>isValid = snd result, errors = fst result\<rparr>, fv\<lparr>formErrors := fst result\<rparr>))"

section \<open>Slots of a day (flexible component)\<close>

text \<open>\<open>Array.prototype.findIndex\<close>: the first index whose element satisfies the test, or \<open>-1\<close>.\<close>

fun findIndex :: "('a \<Rightarrow> bool) \<Rightarrow> 'a list \<Rightarrow> int" where
  "findIndex P [] = - 1"
| "findIndex P (x # xs) =
     (if P x then 0 else (let i = findIndex P xs in if i < 0 then - 1 else i + 1))"

text \<open>
  \<open>formatSlots\<close>: the slots of all resources, in the order of \<open>Object.keys\<close> of the
  response, sorted by start instant (the sort is stable), then filtered to the elements
  that are the first of the sorted array with their \<open>toLocaleTimeString()\<close>.  Both date
  functions are the host's, given on the slot's start string.
\<close>

definition flatMap_timeSlots :: "TimesResponse \<Rightarrow> TimeSlotWithResource list" where
  "flatMap_timeSlots response =
     concat (map (\<lambda>(resourceID, slots).
                    map (\<lambda>time. \<lparr>timeSlot = time, resourceID = resourceID\<rparr>) slots)
                 (times response))"

definition formatSlots ::
  "(string \<Rightarrow> int) \<Rightarrow> (string \<Rightarrow> string) \<Rightarrow> TimesResponse \<Rightarrow> TimeSlotWithResource list" where
  "formatSlots getTime toLocaleTimeString response =
     (let timeSlots = flatMap_timeSlots response;
          self = sort_key (\<lambda>a. getTime (TimeSlot.startTime (timeSlot a))) timeSlots
      in map fst
           (filter (\<lambda>(time, index).
                      int index
                        = findIndex (\<lambda>t. toLocaleTimeString (TimeSlot.startTime (timeSlot t))
                                            = toLocaleTimeString (TimeSlot.startTime (timeSlot time)))
                            self)
                   (zip self [0 ..< length self])))"

section \<open>Available dates\<close>

text \<open>The values of a \<open>Set\<close> built from an array: each element once, at its first place.\<close>

fun uniq :: "'a list \<Rightarrow> 'a list" where
  "uniq [] = []"
| "uniq (x # xs) = x # uniq (filter (\<lambda>y. y \<noteq> x) xs)"

text \<open>
  \<open>fetchAvailableDates\<close> of the flexible component.  The outcome of \<open>services.getDates\<close>
  is the argument \<open>outcome\<close>: \<open>Inr\<close> the response, \<open>Inl\<close> the error that was thrown.
\<close>

definition Flexible_fetchAvailableDates ::
  "BookingProps \<Rightarrow> string + DatesResponse \<Rightarrow> FlexibleBooking \<Rightarrow> FlexibleBooking" where
  "Flexible_fetchAvailableDates props outcome st =
     (if companyID props = '''' \<or> serviceID props = '''' \<or> \<not> serviceLoaded st
      then st\<lparr>availableDates := []\<rparr>
      else (let st1 = st\<lparr>apiCalls := apiCalls st @ [ServicesGetDates]\<rparr>
            in case outcome of
                 Inr response \<Rightarrow>
                   st1\<lparr>availableDates := sort (uniq (concat (map snd (dates response))))\<rparr>
               | Inl err \<Rightarrow>
                   st1\<lparr>console := console st1 @ [''Failed to load available dates: '' @ err],
                       availableDates := []\<rparr>))"

text \<open>\<open>fetchAvailableDates\<close> of the rental component (its month is used for the request only).\<close>

definition Rental_fetchAvailableDates ::
  "BookingProps \<Rightarrow> string + DatesResponse \<Rightarrow> RentalBooking \<Rightarrow> RentalBooking" where
  "Rental_fetchAvailableDates props outcome st =
     (if companyID props = '''' \<or> serviceID props = '''' \<or> \<not> serviceLoaded st
         \<or> serviceTimezone st = ''''
      then st\<lparr>availableDates := []\<rparr>
      else (let st1 = st\<lparr>apiCalls := apiCalls st @ [ServicesGetDates]\<rparr>
            in case outcome of
                 Inr response \<Rightarrow>
                   st1\<lparr>availableDates := sort (uniq (concat (map snd (dates response))))\<rparr>
               | Inl err \<Rightarrow>
                   st1\<lparr>console := console st1 @ [''Failed to load available dates: '' @ err],
                       availableDates := []\<rparr>))"

text \<open>
  \<open>isDateAvailable\<close> of the two date pickers, which decides whether a day's button is
  enabled, on the picker's \<open>availableDates\<close>.  A day is given by what \<open>getFullYear()\<close>,
  \<open>getMonth()\<close> and \<open>getDate()\<close> return.
\<close>

record LocalDate =
  getFullYear :: int
  getMonth :: int
  getDate :: int

definition padStart2 :: "string \<Rightarrow> string" where
  "padStart2 s = replicate (2 - length s) CHR ''0'' @ s"

definition dateStr :: "LocalDate \<Rightarrow> string" where
  "dateStr date =
     Number_toString (getFullYear date) @ ''-'' @ padStart2 (Number_toString (getMonth date + 1))
       @ ''-'' @ padStart2 (Number_toString (getDate date))"

definition Flexible_isDateAvailable :: "string list \<Rightarrow> LocalDate \<Rightarrow> bool" where
  "Flexible_isDateAvailable available date =
     (if length available = 0 then True else dateStr date \<in> set available)"

definition Rental_isDateAvailable :: "string list \<Rightarrow> LocalDate \<Rightarrow> bool" where
  "Rental_isDateAvailable available date = (dateStr date \<in> set available)"

section \<open>Booking submitter\<close>

text \<open>
  The test \<open>response.paymentURL && response.paymentURL.length > 0\<close>; an absent
  \<open>paymentURL\<close> is \<open>None\<close>.
\<close>

definition has_paymentURL :: "BookingResponse \<Rightarrow> bool" where
  "has_paymentURL response =
     (case paymentURL response of None \<Rightarrow> False | Some url \<Rightarrow> url \<noteq> '''' \<and> length url > 0)"

text \<open>
  \<open>makeBooking\<close>: the guard, the two flags set before the request, the branching on the
  response of \<open>bookings.request\<close> or the caught error, and the flag reset in \<open>finally\<close>.
  The two components differ in the guard and in the step type.
\<close>

definition Flexible_makeBooking ::
  "string + BookingResponse \<Rightarrow> FlexibleBooking \<Rightarrow> FlexibleBooking" where
  "Flexible_makeBooking outcome st =
     (if selectedTime st = None then st
      else (let st1 = st\<lparr>submiting := True, error := None\<rparr>;
                st2 = st1\<lparr>apiCalls := apiCalls st1 @ [BookingsRequest]\<rparr>;
                st3 = (case outcome of
                         Inr response \<Rightarrow>
                           if has_paymentURL response
                             then st2\<lparr>location_href := paymentURL response\<rparr>
                           else if status response = ''confirmed''
                             then st2\<lparr>currentStep := Flexible_BookingStep.Success\<rparr>
                           else if status response = ''pending''
                             then st2\<lparr>currentStep := Flexible_BookingStep.Pending\<rparr>
                           else st2
                       | Inl err \<Rightarrow> st2\<lparr>error := Some (''Failed to request booking: '' @ err)\<rparr>)
            in st3\<lparr>submiting := False\<rparr>))"

definition Rental_makeBooking ::
  "string + BookingResponse \<Rightarrow> RentalBooking \<Rightarrow> RentalBooking" where
  "Rental_makeBooking outcome st =
     (if selectedSlot st = None \<or> startDate (dateRange st) = None
         \<or> endDate (dateRange st) = None \<or> serviceTimezone st = ''''
      then st
      else (let st1 = st\<lparr>submiting := True, error := None\<rparr>;
                st2 = st1\<lparr>apiCalls := apiCalls st1 @ [BookingsRequest]\<rparr>;
                st3 = (case outcome of
                         Inr response \<Rightarrow>
                           if has_paymentURL response
                             then st2\<lparr>location_href := paymentURL response\<rparr>
                           else if status response = ''confirmed''
                             then st2\<lparr>currentStep := Rental_BookingStep.Success\<rparr>
                           else if status response = ''pending''
                             then st2\<lparr>currentStep := Rental_BookingStep.Pending\<rparr>
                           else st2
                       | Inl err \<Rightarrow> st2\<lparr>error := Some (''Failed to request booking: '' @ err)\<rparr>)
            in st3\<lparr>submiting := False\<rparr>))"

section \<open>Step navigation\<close>

text \<open>
  \<open>proceedToNextStep\<close>.  In the form step the form view behind \<open>formRef\<close> validates
  itself (and stores its errors); without a mounted form view nothing happens.
\<close>

definition Flexible_proceedToNextStep ::
  "(string \<Rightarrow> bool) \<Rightarrow> (string \<Rightarrow> bool) \<Rightarrow> BookingProps \<Rightarrow> string + BookingResponse
     \<Rightarrow> FlexibleBooking \<Rightarrow> FlexibleBooking" where
  "Flexible_proceedToNextStep URL_parses isNaN props outcome st =
     (if currentStep st = Flexible_BookingStep.Date then
        (if guestMode props
            \<or> (case customForm_fields props of None \<Rightarrow> False | Some fs \<Rightarrow> length fs > 0)
         then st\<lparr>currentStep := Flexible_BookingStep.Form\<rparr>
         else Flexible_makeBooking outcome st)
      else if currentStep st = Flexible_BookingStep.Form then
        (case formRef st of
           None \<Rightarrow> st
         | Some fv \<Rightarrow>
             (let validation = validateForm URL_parses isNaN fv;
                  st1 = st\<lparr>formRef := Some (snd validation)\<rparr>
              in if \<not> isValid (fst validation) then st1 else Flexible_makeBooking outcome st1))
      else st)"

definition Rental_proceedToNextStep ::
  "(string \<Rightarrow> bool) \<Rightarrow> (string \<Rightarrow> bool) \<Rightarrow> BookingProps \<Rightarrow> string + BookingResponse
     \<Rightarrow> RentalBooking \<Rightarrow> RentalBooking" where
  "Rental_proceedToNextStep URL_parses isNaN props outcome st =
     (if currentStep st = Rental_BookingStep.DateRange then
        (if guestMode props
            \<or> (case customForm_fields props of None \<Rightarrow> False | Some fs \<Rightarrow> length fs > 0)
         then st\<lparr>currentStep := Rental_BookingStep.Form\<rparr>
         else Rental_makeBooking outcome st)
      else if currentStep st = Rental_BookingStep.Form then
        (case rental_formRef st of
           None \<Rightarrow> st
         | Some fv \<Rightarrow>
             (let validation = validateForm URL_parses isNaN fv;
                  st1 = st\<lparr>rental_formRef := Some (snd validation)\<rparr>
              in if \<not> isValid (fst validation) then st1 else Rental_makeBooking outcome st1))
      else st)"

section \<open>Slot matcher (rental component)\<close>

text \<open>
  The two numbers of a time of day \<open>HH:MM\<close>, as \<open>split(":").map(Number)\<close> gives them for
  the options of the time select.
\<close>

definition split_time :: "string \<Rightarrow> int \<times> int" where
  "split_time s =
     (int (read_digits (takeWhile (\<lambda>c. c \<noteq> CHR '':'') s)),
      int (read_digits (drop 1 (dropWhile (\<lambda>c. c \<noteq> CHR '':'') s))))"

text \<open>
  The scan of \<open>checkSlotAvailability\<close>: resources in order, the slots of each in order,
  up to the first slot that starts less than a minute from the requested instant.
\<close>

definition within_minute :: "(string \<Rightarrow> int) \<Rightarrow> int \<Rightarrow> TimeSlot \<Rightarrow> bool" where
  "within_minute getTime startDateTime slot
     \<longleftrightarrow> \<bar>getTime (TimeSlot.startTime slot) - startDateTime\<bar> < 60000"

fun scanSlots ::
  "(string \<Rightarrow> int) \<Rightarrow> int \<Rightarrow> string \<Rightarrow> TimeSlot list \<Rightarrow> TimeSlotWithResource option" where
  "scanSlots getTime startDateTime rid [] = None"
| "scanSlots getTime startDateTime rid (slot # slots) =
     (if within_minute getTime startDateTime slot
      then Some \<lparr>timeSlot = slot, resourceID = rid\<rparr>
      else scanSlots getTime startDateTime rid slots)"

fun scanResources ::
  "(string \<Rightarrow> int) \<Rightarrow> int \<Rightarrow> (string \<times> TimeSlot list) list \<Rightarrow> TimeSlotWithResource option" where
  "scanResources getTime startDateTime [] = None"
| "scanResources getTime startDateTime ((rid, slots) # rest) =
     (case scanSlots getTime startDateTime rid slots of
        Some found \<Rightarrow> Some found
      | None \<Rightarrow> scanResources getTime startDateTime rest)"

text \<open>
  \<open>checkSlotAvailability\<close>.  \<open>setHours d h m\<close> is the host's \<open>setHours(h, m, 0, 0)\<close> on a
  copy of the date \<open>d\<close> (it depends on the browser's time zone); the outcome of
  \<open>services.getTimes\<close> is the argument \<open>outcome\<close>.
\<close>

definition totalHours :: "Duration \<Rightarrow> rat" where
  "totalHours duration =
     of_int (days duration * 24 + hours duration) + of_int (minutes duration) / 60"

definition checkSlotAvailability ::
  "(int \<Rightarrow> int \<Rightarrow> int \<Rightarrow> int) \<Rightarrow> (string \<Rightarrow> int) \<Rightarrow> BookingProps \<Rightarrow> string + TimesResponse
     \<Rightarrow> RentalBooking \<Rightarrow> RentalBooking" where
  "checkSlotAvailability setHours getTime props outcome st =
     (case (startDate (dateRange st), endDate (dateRange st)) of
        (Some sd, Some ed) \<Rightarrow>
          if companyID props = '''' \<or> serviceID props = '''' \<or> \<not> serviceLoaded st
             \<or> serviceTimezone st = ''''
          then st\<lparr>selectedSlot := None\<rparr>
          else
            (let startDateTime =
                   setHours sd (fst (split_time (DateRange.startTime (dateRange st))))
                     (snd (split_time (DateRange.startTime (dateRange st))));
                 endDateTime =
                   setHours ed (fst (split_time (DateRange.endTime (dateRange st))))
                     (snd (split_time (DateRange.endTime (dateRange st))));
                 duration = calculateDuration startDateTime endDateTime
             in if totalHours duration < 24 then st\<lparr>selectedSlot := None\<rparr>
                else
                  (let st1 = st\<lparr>apiCalls := apiCalls st @ [ServicesGetTimes]\<rparr>
                   in case outcome of
                        Inr response \<Rightarrow>
                          st1\<lparr>selectedSlot :=
                                scanResources getTime startDateTime (times response)\<rparr>
                      | Inl err \<Rightarrow>
                          st1\<lparr>console :=
                                console st1 @ [''Failed to check slot availability: '' @ err],
                              selectedSlot := None\<rparr>))
      | _ \<Rightarrow> st\<lparr>selectedSlot := None\<rparr>)"

section \<open>A sample configuration\<close>

text \<open>
  A configured widget of each kind with a matched slot, the routes of a site, and a host
  whose time zone is UTC: the instants of three start strings, the time of day of a start
  string on a 24-hour clock, and \<open>setHours\<close> on epoch milliseconds; the answers of
  \<open>new URL\<close> and \<open>isNaN\<close> on the strings used below; and a form view with a required phone
  field, an optional url field and an optional text field.
\<close>

definition sample_props :: BookingProps where
  "sample_props =
     \<lparr>companyID = ''company-1'', serviceID = ''service-1'', guestMode = False,
      customForm_fields = None, guestModeTexts_firstName = ''First Name'',
      guestModeTexts_lastName = ''Last Name'', guestModeTexts_email = ''Email'',
      routes_confirmed = ''/confirmed'', routes_pending = ''/pending''\<rparr>"

definition sample_routes :: "(string \<times> string) list" where
  "sample_routes = [(''home'', ''/''), (''done'', ''/confirmed''), (''wait'', ''/pending'')]"

definition sample_slot :: TimeSlotWithResource where
  "sample_slot =
     \<lparr>timeSlot = \<lparr>TimeSlot.startTime = ''2024-06-01T07:00:00Z'',
                   TimeSlot.endTime = ''2024-06-03T07:00:00Z'', price = None\<rparr>,
      resourceID = ''unit-1''\<rparr>"

definition sample_flexible :: FlexibleBooking where
  "sample_flexible =
     \<lparr>location_href = None, navigated = [], apiCalls = [], console = [],
      currentStep = Flexible_BookingStep.Date, loading = False, submiting = False,
      error = None, serviceLoaded = True, availableDates = [''2024-06-01''],
      timeSlots = [sample_slot], selectedTime = Some sample_slot,
      currentDuration = \<lparr>days = 0, hours = 1, minutes = 30\<rparr>, formRef = None\<rparr>"

definition sample_rental :: RentalBooking where
  "sample_rental =
     \<lparr>location_href = None, navigated = [], apiCalls = [], console = [],
      currentStep = Rental_BookingStep.DateRange, loading = False, submiting = False,
      error = None, serviceLoaded = True, availableDates = [''2024-06-01''],
      dateRange = \<lparr>startDate = Some 1717200000000, endDate = Some 1717372800000,
                    DateRange.startTime = ''07:00'', DateRange.endTime = ''07:00''\<rparr>,
      selectedSlot = Some sample_slot, serviceTimezone = ''UTC'', rental_formRef = None\<rparr>"

definition slot_at :: "string \<Rightarrow> TimeSlot" where
  "slot_at s = \<lparr>TimeSlot.startTime = s, TimeSlot.endTime = ''2024-06-03T07:00:00Z'', price = None\<rparr>"

definition sample_URL_parses :: "string \<Rightarrow> bool" where
  "sample_URL_parses s \<longleftrightarrow> s = ''https://bookla.com/''"

definition sample_isNaN :: "string \<Rightarrow> bool" where
  "sample_isNaN s \<longleftrightarrow> s \<noteq> ''42''"

definition sample_field :: "FieldType \<Rightarrow> bool \<Rightarrow> string \<Rightarrow> CustomFormField" where
  "sample_field t r label =
     \<lparr>placeholderText = label, type = t, inputWidth = ''auto / span 2'', required = r,
      labelText = label, errorText = '''', options = None\<rparr>"

definition sample_form :: FormView where
  "sample_form =
     \<lparr>props_fields = [sample_field Phone True ''phone'', sample_field Url False ''site'',
                       sample_field Text False ''note''],
      guestFormEnabled = True, firstName = ''First Name'', lastName = ''Last Name'',
      email = ''Email'',
      formData = [''phone'' \<mapsto> Str ''abc'', ''site'' \<mapsto> Str ''not a url''],
      guestData = [''firstName'' \<mapsto> Str ''Ada''],
      formErrors = Map.empty\<rparr>"

definition sample_getTime :: "string \<Rightarrow> int" where
  "sample_getTime s =
     (if s = ''2024-06-01T07:00:00Z'' then 1717225200000
      else if s = ''2024-06-01T07:00:30Z'' then 1717225230000
      else if s = ''2024-06-01T09:00:00Z'' then 1717232400000
      else 0)"

definition sample_toLocaleTimeString :: "string \<Rightarrow> string" where
  "sample_toLocaleTimeString s = take 8 (drop 11 s)"

definition utc_setHours :: "int \<Rightarrow> int \<Rightarrow> int \<Rightarrow> int" where
  "utc_setHours d h m = (d div 86400000) * 86400000 + h * 3600000 + m * 60000"

section \<open>Decimal digits\<close>

lemma is_digit_digit_char: "d < 10 \<Longrightarrow> is_digit (digit_char d)"
  by (simp add: is_digit_def digit_char_def)

lemma digit_char_value: "d < 10 \<Longrightarrow> (of_char (digit_char d) :: nat) - 48 = d"
  by (simp add: digit_char_def)

lemma digits_all_digit: "\<forall>c \<in> set (digits n). is_digit c"
proof (induction n rule: digits.induct)
  case (1 n)
  show ?case
  proof (cases "n < 10")
    case True
    then show ?thesis by (subst digits.simps) (simp add: is_digit_digit_char)
  next
    case False
    with 1 have "\<forall>c \<in> set (digits (n div 10)). is_digit c" by simp
    moreover have "is_digit (digit_char (n mod 10))" by (simp add: is_digit_digit_char)
    ultimately show ?thesis using False by (subst digits.simps) simp
  qed
qed

lemma digits_nonempty: "digits n \<noteq> []"
  by (subst digits.simps) simp

lemma read_digits_snoc: "read_digits (s @ [c]) = 10 * read_digits s + ((of_char c :: nat) - 48)"
  by (simp add: read_digits_def)

lemma read_digits_digits: "read_digits (digits n) = n"
proof (induction n rule: digits.induct)
  case (1 n)
  show ?case
  proof (cases "n < 10")
    case True
    then show ?thesis by (subst digits.simps) (simp add: read_digits_def digit_char_value)
  next
    case False
    with 1 have ih: "read_digits (digits (n div 10)) = n div 10" by simp
    have "read_digits (digits n) = read_digits (digits (n div 10) @ [digit_char (n mod 10)])"
      using False by (subst digits.simps) simp
    also have "\<dots> = 10 * (n div 10) + n mod 10"
      by (simp add: read_digits_snoc ih digit_char_value)
    finally show ?thesis by simp
  qed
qed

lemma takeWhile_digits: "\<not> is_digit c \<Longrightarrow> takeWhile is_digit (digits n @ c # r) = digits n"
  by (simp add: takeWhile_append2 digits_all_digit)

lemma dropWhile_digits: "\<not> is_digit c \<Longrightarrow> dropWhile is_digit (digits n @ c # r) = c # r"
  by (simp add: dropWhile_append2 digits_all_digit)

lemma iso8601_minutes_PT:
  "iso8601_minutes (''PT'' @ digits h @ ''H'' @ digits m @ ''M'') = Some (int h * 60 + int m)"
proof -
  have H: "\<not> is_digit CHR ''H''" and M: "\<not> is_digit CHR ''M''"
    by (simp_all add: is_digit_def)
  have t1: "takeWhile is_digit (digits h @ CHR ''H'' # digits m @ ''M'') = digits h"
    using takeWhile_digits [OF H] by simp
  have d1: "dropWhile is_digit (digits h @ CHR ''H'' # digits m @ ''M'') = CHR ''H'' # digits m @ ''M''"
    using dropWhile_digits [OF H] by simp
  have t2: "takeWhile is_digit (digits m @ ''M'') = digits m"
    using takeWhile_digits [OF M, of m "[]"] by simp
  have d2: "dropWhile is_digit (digits m @ ''M'') = ''M''"
    using dropWhile_digits [OF M, of m "[]"] by simp
  show ?thesis
    by (simp add: iso8601_minutes_def t1 d1 t2 d2 digits_nonempty read_digits_digits)
qed

lemma Flexible_durationToISO_minutes:
  assumes "0 \<le> hours d" "0 \<le> minutes d"
  shows "iso8601_minutes (Flexible_durationToISO d) = Some (convertToMinutes d)"
  using assms iso8601_minutes_PT [of "nat (hours d)" "nat (minutes d)"]
  by (simp add: Flexible_durationToISO_def Number_toString_def convertToMinutes_def)

lemma Rental_durationToISO_minutes:
  assumes "0 \<le> days d" "0 \<le> hours d" "0 \<le> minutes d"
  shows "iso8601_minutes (Rental_durationToISO d) = Some ((days d * 24 + hours d) * 60 + minutes d)"
  using assms iso8601_minutes_PT [of "nat (days d * 24 + hours d)" "nat (minutes d)"]
  by (simp add: Rental_durationToISO_def Number_toString_def)

lemma js_rem_nonneg: "0 \<le> a \<Longrightarrow> 0 < b \<Longrightarrow> js_rem a b = a mod b"
  by (cases "a = 0") (simp_all add: js_rem_def)

lemma calculateDuration_total:
  assumes "startDateTime \<le> endDateTime"
  shows "0 \<le> days (calculateDuration startDateTime endDateTime)"
    and "0 \<le> hours (calculateDuration startDateTime endDateTime)"
    and "0 \<le> minutes (calculateDuration startDateTime endDateTime)"
    and "(days (calculateDuration startDateTime endDateTime) * 24
            + hours (calculateDuration startDateTime endDateTime)) * 60
          + minutes (calculateDuration startDateTime endDateTime)
         = (endDateTime - startDateTime) div 60000"
proof -
  define tm where "tm = (endDateTime - startDateTime) div 60000"
  have tm: "0 \<le> tm" using assms by (simp add: tm_def)
  then have h: "0 \<le> tm div 60" by simp
  have cd: "calculateDuration startDateTime endDateTime
      = \<lparr>days = tm div 60 div 24, hours = (tm div 60) mod 24, minutes = tm mod 60\<rparr>"
    using tm h by (simp add: calculateDuration_def Let_def tm_def js_rem_nonneg)
  show "0 \<le> days (calculateDuration startDateTime endDateTime)"
    and "0 \<le> hours (calculateDuration startDateTime endDateTime)"
    and "0 \<le> minutes (calculateDuration startDateTime endDateTime)"
    using tm h by (simp_all add: cd)
  show "(days (calculateDuration startDateTime endDateTime) * 24
            + hours (calculateDuration startDateTime endDateTime)) * 60
          + minutes (calculateDuration startDateTime endDateTime)
         = (endDateTime - startDateTime) div 60000"
    unfolding cd tm_def [symmetric] by simp
qed

section \<open>Duration strings\<close>

text \<open>
  C4.  For every valid duration the ISO-8601 string that \<open>durationToISO\<close> produces reads
  back as the total minutes it was computed from: in the flexible component the total of
  its duration picker (\<open>convertToMinutes\<close>, which is the whole duration since every
  duration this component builds has \<open>days: 0\<close>; also when the duration comes from
  \<open>convertToHoursAndMinutes\<close>), in the rental component the days, hours and minutes of the
  duration (also when the duration comes from \<open>calculateDuration\<close>).  The duration of one
  hour and thirty minutes gives exactly \<open>PT1H30M\<close> in both components.
\<close>

theorem durationToISO_roundtrip:
  "(valid_Duration d \<longrightarrow>
      iso8601_minutes (Flexible_durationToISO d) = Some (convertToMinutes d)
      \<and> (days d = 0 \<longrightarrow> convertToMinutes d = (days d * 24 + hours d) * 60 + minutes d)
      \<and> iso8601_minutes (Rental_durationToISO d)
          = Some ((days d * 24 + hours d) * 60 + minutes d))
   \<and> (0 \<le> totalMinutes \<longrightarrow>
      iso8601_minutes (Flexible_durationToISO (convertToHoursAndMinutes totalMinutes))
        = Some totalMinutes)
   \<and> (startDateTime \<le> endDateTime \<longrightarrow>
      iso8601_minutes (Rental_durationToISO (calculateDuration startDateTime endDateTime))
        = Some ((endDateTime - startDateTime) div 60000))
   \<and> Flexible_durationToISO \<lparr>days = 0, hours = 1, minutes = 30\<rparr> = ''PT1H30M''
   \<and> Rental_durationToISO \<lparr>days = 0, hours = 1, minutes = 30\<rparr> = ''PT1H30M''"
proof (intro conjI impI)
  assume v: "valid_Duration d"
  then show "iso8601_minutes (Flexible_durationToISO d) = Some (convertToMinutes d)"
    by (simp add: valid_Duration_def Flexible_durationToISO_minutes)
  show "convertToMinutes d = (days d * 24 + hours d) * 60 + minutes d" if "days d = 0"
    using that by (simp add: convertToMinutes_def)
  from v show "iso8601_minutes (Rental_durationToISO d)
      = Some ((days d * 24 + hours d) * 60 + minutes d)"
    by (simp add: valid_Duration_def Rental_durationToISO_minutes)
next
  assume t: "0 \<le> totalMinutes"
  then have "0 \<le> totalMinutes div 60" by simp
  with t show "iso8601_minutes (Flexible_durationToISO (convertToHoursAndMinutes totalMinutes))
      = Some totalMinutes"
    by (simp add: Flexible_durationToISO_minutes convertToHoursAndMinutes_def
        convertToMinutes_def js_rem_nonneg)
next
  assume le: "startDateTime \<le> endDateTime"
  show "iso8601_minutes (Rental_durationToISO (calculateDuration startDateTime endDateTime))
      = Some ((endDateTime - startDateTime) div 60000)"
    using Rental_durationToISO_minutes [OF calculateDuration_total(1-3) [OF le]]
    by (simp only: calculateDuration_total(4) [OF le])
next
  show "Flexible_durationToISO \<lparr>days = 0, hours = 1, minutes = 30\<rparr> = ''PT1H30M''"
    by code_simp
  show "Rental_durationToISO \<lparr>days = 0, hours = 1, minutes = 30\<rparr> = ''PT1H30M''"
    by code_simp
qed

theorem durationToISO_roundtrip_witness:
  "valid_Duration \<lparr>days = 0, hours = 2, minutes = 15\<rparr>
   \<and> iso8601_minutes (Flexible_durationToISO \<lparr>days = 0, hours = 2, minutes = 15\<rparr>) = Some 135
   \<and> convertToMinutes \<lparr>days = 0, hours = 2, minutes = 15\<rparr> = (0 * 24 + 2) * 60 + 15
   \<and> valid_Duration \<lparr>days = 1, hours = 2, minutes = 45\<rparr>
   \<and> iso8601_minutes (Flexible_durationToISO \<lparr>days = 1, hours = 2, minutes = 45\<rparr>) = Some 165
   \<and> iso8601_minutes (Rental_durationToISO \<lparr>days = 1, hours = 2, minutes = 45\<rparr>) = Some 1605
   \<and> (0::int) \<le> 90
   \<and> iso8601_minutes (Flexible_durationToISO (convertToHoursAndMinutes 90)) = Some 90
   \<and> (0::int) \<le> 90000000
   \<and> iso8601_minutes (Rental_durationToISO (calculateDuration 0 90000000)) = Some 1500"
  using durationToISO_roundtrip
    [of "\<lparr>days = 1, hours = 2, minutes = 45\<rparr>" 90 0 90000000]
    durationToISO_roundtrip
    [of "\<lparr>days = 0, hours = 2, minutes = 15\<rparr>" 90 0 90000000]
  by (simp add: valid_Duration_def MAX_SAFE_INTEGER_def convertToMinutes_def)

section \<open>The booking submitter\<close>

lemma Flexible_makeBooking_Inr:
  assumes "selectedTime st = Some t"
  shows "Flexible_makeBooking (Inr response) st =
     (if has_paymentURL response
        then st\<lparr>error := None, apiCalls := apiCalls st @ [BookingsRequest],
                location_href := paymentURL response, submiting := False\<rparr>
      else if status response = ''confirmed''
        then st\<lparr>error := None, apiCalls := apiCalls st @ [BookingsRequest],
                currentStep := Flexible_BookingStep.Success, submiting := False\<rparr>
      else if status response = ''pending''
        then st\<lparr>error := None, apiCalls := apiCalls st @ [BookingsRequest],
                currentStep := Flexible_BookingStep.Pending, submiting := False\<rparr>
      else st\<lparr>error := None, apiCalls := apiCalls st @ [BookingsRequest], submiting := False\<rparr>)"
  using assms by (simp add: Flexible_makeBooking_def Let_def)

lemma Flexible_makeBooking_Inl:
  assumes "selectedTime st = Some t"
  shows "Flexible_makeBooking (Inl err) st =
     st\<lparr>apiCalls := apiCalls st @ [BookingsRequest],
        error := Some (''Failed to request booking: '' @ err), submiting := False\<rparr>"
  using assms by (simp add: Flexible_makeBooking_def Let_def)

lemma Rental_makeBooking_Inr:
  assumes "selectedSlot st = Some t" "startDate (dateRange st) = Some sd"
    "endDate (dateRange st) = Some ed" "serviceTimezone st \<noteq> ''''"
  shows "Rental_makeBooking (Inr response) st =
     (if has_paymentURL response
        then st\<lparr>error := None, apiCalls := apiCalls st @ [BookingsRequest],
                location_href := paymentURL response, submiting := False\<rparr>
      else if status response = ''confirmed''
        then st\<lparr>error := None, apiCalls := apiCalls st @ [BookingsRequest],
                currentStep := Rental_BookingStep.Success, submiting := False\<rparr>
      else if status response = ''pending''
        then st\<lparr>error := None, apiCalls := apiCalls st @ [BookingsRequest],
                currentStep := Rental_BookingStep.Pending, submiting := False\<rparr>
      else st\<lparr>error := None, apiCalls := apiCalls st @ [BookingsRequest], submiting := False\<rparr>)"
  using assms by (simp add: Rental_makeBooking_def Let_def)

lemma Rental_makeBooking_Inl:
  assumes "selectedSlot st = Some t" "startDate (dateRange st) = Some sd"
    "endDate (dateRange st) = Some ed" "serviceTimezone st \<noteq> ''''"
  shows "Rental_makeBooking (Inl err) st =
     st\<lparr>apiCalls := apiCalls st @ [BookingsRequest],
        error := Some (''Failed to request booking: '' @ err), submiting := False\<rparr>"
  using assms by (simp add: Rental_makeBooking_def Let_def)

text \<open>
  C3.  Once \<open>makeBooking\<close> has passed its guard and the booking API has answered, the
  response is handled in this order, in both components: a non-empty \<open>paymentURL\<close> is
  assigned to \<open>window.location.href\<close>, the step stays as it was and the render that
  follows navigates nowhere; otherwise the status \<open>confirmed\<close> sets the step to Success;
  otherwise the status \<open>pending\<close> sets the step to Pending; in the last two cases the
  address of the page is left alone.
\<close>

theorem makeBooking_response_branching:
  assumes flexible: "selectedTime st \<noteq> None"
    and rental: "selectedSlot rst \<noteq> None" "startDate (dateRange rst) \<noteq> None"
      "endDate (dateRange rst) \<noteq> None" "serviceTimezone rst \<noteq> ''''"
  shows
    "(has_paymentURL response \<longrightarrow>
        location_href (Flexible_makeBooking (Inr response) st) = paymentURL response
        \<and> currentStep (Flexible_makeBooking (Inr response) st) = currentStep st
        \<and> navigated (Flexible_render props routes st (Flexible_makeBooking (Inr response) st))
            = navigated st
        \<and> location_href (Rental_makeBooking (Inr response) rst) = paymentURL response
        \<and> currentStep (Rental_makeBooking (Inr response) rst) = currentStep rst
        \<and> navigated (Rental_render props routes rst (Rental_makeBooking (Inr response) rst))
            = navigated rst)
     \<and> (\<not> has_paymentURL response
          \<and> status response = ''confirmed'' \<longrightarrow>
        currentStep (Flexible_makeBooking (Inr response) st) = Flexible_BookingStep.Success
        \<and> location_href (Flexible_makeBooking (Inr response) st) = location_href st
        \<and> currentStep (Rental_makeBooking (Inr response) rst) = Rental_BookingStep.Success
        \<and> location_href (Rental_makeBooking (Inr response) rst) = location_href rst)
     \<and> (\<not> has_paymentURL response
          \<and> status response \<noteq> ''confirmed'' \<and> status response = ''pending'' \<longrightarrow>
        currentStep (Flexible_makeBooking (Inr response) st) = Flexible_BookingStep.Pending
        \<and> location_href (Flexible_makeBooking (Inr response) st) = location_href st
        \<and> currentStep (Rental_makeBooking (Inr response) rst) = Rental_BookingStep.Pending
        \<and> location_href (Rental_makeBooking (Inr response) rst) = location_href rst)"
proof -
  from flexible obtain t where t: "selectedTime st = Some t" by auto
  from rental obtain t' sd ed where r: "selectedSlot rst = Some t'"
    "startDate (dateRange rst) = Some sd" "endDate (dateRange rst) = Some ed" by auto
  note f_eq = Flexible_makeBooking_Inr [OF t, of response]
  note r_eq = Rental_makeBooking_Inr [OF r rental(4), of response]
  show ?thesis
  proof (intro conjI impI)
    assume a: "has_paymentURL response"
    show "location_href (Flexible_makeBooking (Inr response) st) = paymentURL response"
      and "currentStep (Flexible_makeBooking (Inr response) st) = currentStep st"
      and "location_href (Rental_makeBooking (Inr response) rst) = paymentURL response"
      and "currentStep (Rental_makeBooking (Inr response) rst) = currentStep rst"
      using a by (simp_all add: f_eq r_eq)
    show "navigated (Flexible_render props routes st (Flexible_makeBooking (Inr response) st))
            = navigated st"
      using a by (simp add: f_eq Flexible_render_def)
    show "navigated (Rental_render props routes rst (Rental_makeBooking (Inr response) rst))
            = navigated rst"
      using a by (simp add: r_eq Rental_render_def)
  next
    assume a: "\<not> has_paymentURL response
          \<and> status response = ''confirmed''"
    show "currentStep (Flexible_makeBooking (Inr response) st) = Flexible_BookingStep.Success"
      and "location_href (Flexible_makeBooking (Inr response) st) = location_href st"
      and "currentStep (Rental_makeBooking (Inr response) rst) = Rental_BookingStep.Success"
      and "location_href (Rental_makeBooking (Inr response) rst) = location_href rst"
      using a by (simp_all add: f_eq r_eq)
  next
    assume a: "\<not> has_paymentURL response
          \<and> status response \<noteq> ''confirmed'' \<and> status response = ''pending''"
    show "currentStep (Flexible_makeBooking (Inr response) st) = Flexible_BookingStep.Pending"
      and "location_href (Flexible_makeBooking (Inr response) st) = location_href st"
      and "currentStep (Rental_makeBooking (Inr response) rst) = Rental_BookingStep.Pending"
      and "location_href (Rental_makeBooking (Inr response) rst) = location_href rst"
      using a by (simp_all add: f_eq r_eq)
  qed
qed

theorem makeBooking_response_branching_witness:
  "selectedTime sample_flexible \<noteq> None \<and> selectedSlot sample_rental \<noteq> None
   \<and> startDate (dateRange sample_rental) \<noteq> None \<and> endDate (dateRange sample_rental) \<noteq> None
   \<and> serviceTimezone sample_rental \<noteq> ''''
   \<and> has_paymentURL \<lparr>paymentURL = Some ''https://pay.example/1'', status = ''pending''\<rparr>
   \<and> location_href (Flexible_makeBooking
         (Inr \<lparr>paymentURL = Some ''https://pay.example/1'', status = ''pending''\<rparr>) sample_flexible)
       = Some ''https://pay.example/1''
   \<and> currentStep (Rental_makeBooking
         (Inr \<lparr>paymentURL = Some ''https://pay.example/1'', status = ''pending''\<rparr>) sample_rental)
       = Rental_BookingStep.DateRange
   \<and> \<not> has_paymentURL \<lparr>paymentURL = Some '''', status = ''confirmed''\<rparr>
   \<and> currentStep (Flexible_makeBooking
         (Inr \<lparr>paymentURL = Some '''', status = ''confirmed''\<rparr>) sample_flexible)
       = Flexible_BookingStep.Success
   \<and> currentStep (Rental_makeBooking
         (Inr \<lparr>paymentURL = Some '''', status = ''confirmed''\<rparr>) sample_rental)
       = Rental_BookingStep.Success
   \<and> \<not> has_paymentURL \<lparr>paymentURL = None, status = ''pending''\<rparr>
   \<and> currentStep (Flexible_makeBooking
         (Inr \<lparr>paymentURL = None, status = ''pending''\<rparr>) sample_flexible)
       = Flexible_BookingStep.Pending
   \<and> currentStep (Rental_makeBooking
         (Inr \<lparr>paymentURL = None, status = ''pending''\<rparr>) sample_rental)
       = Rental_BookingStep.Pending"
  using
    makeBooking_response_branching [where st = sample_flexible and rst = sample_rental
      and response = "\<lparr>paymentURL = Some ''https://pay.example/1'', status = ''pending''\<rparr>"]
    makeBooking_response_branching [where st = sample_flexible and rst = sample_rental
      and response = "\<lparr>paymentURL = Some '''', status = ''confirmed''\<rparr>"]
    makeBooking_response_branching [where st = sample_flexible and rst = sample_rental
      and response = "\<lparr>paymentURL = None, status = ''pending''\<rparr>"]
  by (simp add: sample_flexible_def sample_rental_def has_paymentURL_def)

text \<open>
  C5.  When the booking request fails, \<open>makeBooking\<close> catches the error, keeps the message
  \<open>Failed to request booking: \<close> followed by the error in the \<open>error\<close> state, and leaves
  the step where it was: the address of the page is unchanged and the render that follows
  navigates nowhere.  Both components.
\<close>

theorem makeBooking_failure_retained:
  assumes flexible: "selectedTime st \<noteq> None"
    and rental: "selectedSlot rst \<noteq> None" "startDate (dateRange rst) \<noteq> None"
      "endDate (dateRange rst) \<noteq> None" "serviceTimezone rst \<noteq> ''''"
  shows
    "error (Flexible_makeBooking (Inl err) st) = Some (''Failed to request booking: '' @ err)
     \<and> currentStep (Flexible_makeBooking (Inl err) st) = currentStep st
     \<and> location_href (Flexible_makeBooking (Inl err) st) = location_href st
     \<and> navigated (Flexible_render props routes st (Flexible_makeBooking (Inl err) st))
         = navigated st
     \<and> error (Rental_makeBooking (Inl err) rst) = Some (''Failed to request booking: '' @ err)
     \<and> currentStep (Rental_makeBooking (Inl err) rst) = currentStep rst
     \<and> location_href (Rental_makeBooking (Inl err) rst) = location_href rst
     \<and> navigated (Rental_render props routes rst (Rental_makeBooking (Inl err) rst))
         = navigated rst"
proof -
  from flexible obtain t where t: "selectedTime st = Some t" by auto
  from rental obtain t' sd ed where r: "selectedSlot rst = Some t'"
    "startDate (dateRange rst) = Some sd" "endDate (dateRange rst) = Some ed" by auto
  note f_eq = Flexible_makeBooking_Inl [OF t, of err]
  note r_eq = Rental_makeBooking_Inl [OF r rental(4), of err]
  show ?thesis
    by (simp add: f_eq r_eq Flexible_render_def Rental_render_def)
qed

theorem makeBooking_failure_retained_witness:
  "selectedTime sample_flexible \<noteq> None \<and> selectedSlot sample_rental \<noteq> None
   \<and> startDate (dateRange sample_rental) \<noteq> None \<and> endDate (dateRange sample_rental) \<noteq> None
   \<and> serviceTimezone sample_rental \<noteq> ''''
   \<and> error (Flexible_makeBooking (Inl ''Error: Network Error'') sample_flexible)
       = Some ''Failed to request booking: Error: Network Error''
   \<and> currentStep (Flexible_makeBooking (Inl ''Error: Network Error'') sample_flexible)
       = Flexible_BookingStep.Date
   \<and> navigated (Flexible_render sample_props sample_routes sample_flexible
         (Flexible_makeBooking (Inl ''Error: Network Error'') sample_flexible)) = []
   \<and> error (Rental_makeBooking (Inl ''Error: Network Error'') sample_rental)
       = Some ''Failed to request booking: Error: Network Error''
   \<and> currentStep (Rental_makeBooking (Inl ''Error: Network Error'') sample_rental)
       = Rental_BookingStep.DateRange"
  using makeBooking_failure_retained [where st = sample_flexible and rst = sample_rental
      and err = "''Error: Network Error''" and props = sample_props and routes = sample_routes]
  by (simp add: sample_flexible_def sample_rental_def)

section \<open>Step navigation and routing\<close>

lemma Flexible_makeBooking_calls:
  assumes "selectedTime st = Some t"
  shows "apiCalls (Flexible_makeBooking outcome st) = apiCalls st @ [BookingsRequest]"
    and "currentStep st \<noteq> Flexible_BookingStep.Form
      \<Longrightarrow> currentStep (Flexible_makeBooking outcome st) \<noteq> Flexible_BookingStep.Form"
  using assms
  by (cases outcome; simp add: Flexible_makeBooking_Inr Flexible_makeBooking_Inl)+

lemma Rental_makeBooking_calls:
  assumes "selectedSlot st = Some t" "startDate (dateRange st) = Some sd"
    "endDate (dateRange st) = Some ed" "serviceTimezone st \<noteq> ''''"
  shows "apiCalls (Rental_makeBooking outcome st) = apiCalls st @ [BookingsRequest]"
    and "currentStep st \<noteq> Rental_BookingStep.Form
      \<Longrightarrow> currentStep (Rental_makeBooking outcome st) \<noteq> Rental_BookingStep.Form"
  using assms
  by (cases outcome; simp add: Rental_makeBooking_Inr Rental_makeBooking_Inl)+

text \<open>
  C7.  A forward transition from the selection step (\<open>Date\<close> in the flexible component,
  \<open>DateRange\<close> in the rental one): when guest mode is off and no custom field is
  configured, \<open>proceedToNextStep\<close> is \<open>makeBooking\<close> itself, so with a chosen slot the
  booking request is sent and the step never becomes \<open>Form\<close>; when guest mode is on or
  there is at least one custom field, the step becomes \<open>Form\<close> and nothing else changes.
\<close>

theorem proceedToNextStep_from_selection:
  "(currentStep st = Flexible_BookingStep.Date \<longrightarrow>
      (\<not> guestMode props
         \<and> (customForm_fields props = None \<or> customForm_fields props = Some []) \<longrightarrow>
         Flexible_proceedToNextStep URL_parses isNaN props outcome st
           = Flexible_makeBooking outcome st
         \<and> (selectedTime st \<noteq> None \<longrightarrow>
              apiCalls (Flexible_proceedToNextStep URL_parses isNaN props outcome st)
                = apiCalls st @ [BookingsRequest]
              \<and> currentStep (Flexible_proceedToNextStep URL_parses isNaN props outcome st)
                  \<noteq> Flexible_BookingStep.Form))
      \<and> (guestMode props \<or> (\<exists>f fs. customForm_fields props = Some (f # fs)) \<longrightarrow>
         Flexible_proceedToNextStep URL_parses isNaN props outcome st
           = st\<lparr>currentStep := Flexible_BookingStep.Form\<rparr>))
   \<and> (currentStep rst = Rental_BookingStep.DateRange \<longrightarrow>
      (\<not> guestMode props
         \<and> (customForm_fields props = None \<or> customForm_fields props = Some []) \<longrightarrow>
         Rental_proceedToNextStep URL_parses isNaN props outcome' rst
           = Rental_makeBooking outcome' rst
         \<and> (selectedSlot rst \<noteq> None \<and> startDate (dateRange rst) \<noteq> None
              \<and> endDate (dateRange rst) \<noteq> None \<and> serviceTimezone rst \<noteq> '''' \<longrightarrow>
              apiCalls (Rental_proceedToNextStep URL_parses isNaN props outcome' rst)
                = apiCalls rst @ [BookingsRequest]
              \<and> currentStep (Rental_proceedToNextStep URL_parses isNaN props outcome' rst)
                  \<noteq> Rental_BookingStep.Form))
      \<and> (guestMode props \<or> (\<exists>f fs. customForm_fields props = Some (f # fs)) \<longrightarrow>
         Rental_proceedToNextStep URL_parses isNaN props outcome' rst
           = rst\<lparr>currentStep := Rental_BookingStep.Form\<rparr>))"
proof (intro conjI impI)
  assume s: "currentStep st = Flexible_BookingStep.Date"
    and c: "\<not> guestMode props
         \<and> (customForm_fields props = None \<or> customForm_fields props = Some [])"
  show eq: "Flexible_proceedToNextStep URL_parses isNaN props outcome st
           = Flexible_makeBooking outcome st"
    using s c by (auto simp add: Flexible_proceedToNextStep_def)
  assume "selectedTime st \<noteq> None"
  then obtain t where t: "selectedTime st = Some t" by auto
  show "apiCalls (Flexible_proceedToNextStep URL_parses isNaN props outcome st)
                = apiCalls st @ [BookingsRequest]"
    by (simp only: eq Flexible_makeBooking_calls(1) [OF t])
  show "currentStep (Flexible_proceedToNextStep URL_parses isNaN props outcome st)
                  \<noteq> Flexible_BookingStep.Form"
    unfolding eq by (rule Flexible_makeBooking_calls(2) [OF t]) (simp add: s)
next
  assume "currentStep st = Flexible_BookingStep.Date"
    and "guestMode props \<or> (\<exists>f fs. customForm_fields props = Some (f # fs))"
  then show "Flexible_proceedToNextStep URL_parses isNaN props outcome st
           = st\<lparr>currentStep := Flexible_BookingStep.Form\<rparr>"
    by (auto simp add: Flexible_proceedToNextStep_def)
next
  assume s: "currentStep rst = Rental_BookingStep.DateRange"
    and c: "\<not> guestMode props
         \<and> (customForm_fields props = None \<or> customForm_fields props = Some [])"
  show eq: "Rental_proceedToNextStep URL_parses isNaN props outcome' rst
           = Rental_makeBooking outcome' rst"
    using s c by (auto simp add: Rental_proceedToNextStep_def)
  assume "selectedSlot rst \<noteq> None \<and> startDate (dateRange rst) \<noteq> None
              \<and> endDate (dateRange rst) \<noteq> None \<and> serviceTimezone rst \<noteq> ''''"
  then obtain t sd ed where r: "selectedSlot rst = Some t" "startDate (dateRange rst) = Some sd"
    "endDate (dateRange rst) = Some ed" "serviceTimezone rst \<noteq> ''''" by auto
  show "apiCalls (Rental_proceedToNextStep URL_parses isNaN props outcome' rst)
                = apiCalls rst @ [BookingsRequest]"
    by (simp only: eq Rental_makeBooking_calls(1) [OF r])
  show "currentStep (Rental_proceedToNextStep URL_parses isNaN props outcome' rst)
                  \<noteq> Rental_BookingStep.Form"
    unfolding eq by (rule Rental_makeBooking_calls(2) [OF r]) (simp add: s)
next
  assume "currentStep rst = Rental_BookingStep.DateRange"
    and "guestMode props \<or> (\<exists>f fs. customForm_fields props = Some (f # fs))"
  then show "Rental_proceedToNextStep URL_parses isNaN props outcome' rst
           = rst\<lparr>currentStep := Rental_BookingStep.Form\<rparr>"
    by (auto simp add: Rental_proceedToNextStep_def)
qed

theorem proceedToNextStep_from_selection_witness:
  "currentStep sample_flexible = Flexible_BookingStep.Date
   \<and> currentStep sample_rental = Rental_BookingStep.DateRange
   \<and> \<not> guestMode sample_props \<and> customForm_fields sample_props = None
   \<and> selectedTime sample_flexible \<noteq> None
   \<and> apiCalls (Flexible_proceedToNextStep (\<lambda>s. True) (\<lambda>s. False) sample_props
         (Inl ''Error'') sample_flexible) = [BookingsRequest]
   \<and> apiCalls (Rental_proceedToNextStep (\<lambda>s. True) (\<lambda>s. False) sample_props
         (Inl ''Error'') sample_rental) = [BookingsRequest]
   \<and> guestMode (sample_props\<lparr>guestMode := True\<rparr>)
   \<and> currentStep (Flexible_proceedToNextStep (\<lambda>s. True) (\<lambda>s. False)
         (sample_props\<lparr>guestMode := True\<rparr>) (Inl ''Error'') sample_flexible)
       = Flexible_BookingStep.Form
   \<and> apiCalls (Flexible_proceedToNextStep (\<lambda>s. True) (\<lambda>s. False)
         (sample_props\<lparr>guestMode := True\<rparr>) (Inl ''Error'') sample_flexible) = []
   \<and> currentStep (Rental_proceedToNextStep (\<lambda>s. True) (\<lambda>s. False)
         (sample_props\<lparr>guestMode := True\<rparr>) (Inl ''Error'') sample_rental)
       = Rental_BookingStep.Form"
  using
    proceedToNextStep_from_selection [where st = sample_flexible and rst = sample_rental
      and props = sample_props and outcome = "Inl ''Error''" and outcome' = "Inl ''Error''"
      and URL_parses = "\<lambda>s. True" and isNaN = "\<lambda>s. False"]
    proceedToNextStep_from_selection [where st = sample_flexible and rst = sample_rental
      and props = "sample_props\<lparr>guestMode := True\<rparr>" and outcome = "Inl ''Error''"
      and outcome' = "Inl ''Error''" and URL_parses = "\<lambda>s. True" and isNaN = "\<lambda>s. False"]
  by (simp add: sample_flexible_def sample_rental_def sample_props_def
      Flexible_proceedToNextStep_def Rental_proceedToNextStep_def
      Flexible_makeBooking_def Rental_makeBooking_def)

lemma getRouteId_registered:
  "(k, path) \<in> set routes \<Longrightarrow> (getRouteId routes path, path) \<in> set routes"
  by (induction routes) (auto split: if_splits)

lemma getRouteId_unregistered:
  "\<forall>k. (k, path) \<notin> set routes \<Longrightarrow> getRouteId routes path = ''''"
  by (induction routes) (auto split: if_splits)

lemma getRouteId_nonempty:
  assumes "(k, path) \<in> set routes" "\<forall>p. ('''', p) \<notin> set routes"
  shows "getRouteId routes path \<noteq> ''''"
  using getRouteId_registered [OF assms(1)] assms(2) by auto

lemma proceedToRoute_target:
  assumes "\<forall>p. ('''', p) \<notin> set routes"
  shows "\<exists>target. navigated (proceedToRoute routes route w) = navigated w @ [target]
     \<and> ((\<exists>k. (k, route) \<in> set routes) \<longrightarrow> (target, route) \<in> set routes)
     \<and> (\<not> (\<exists>k. (k, route) \<in> set routes) \<longrightarrow> target = getRouteId routes ''/'')"
proof (cases "\<exists>k. (k, route) \<in> set routes")
  case True
  then obtain k where k: "(k, route) \<in> set routes" by blast
  show ?thesis
    using getRouteId_nonempty [OF k assms] getRouteId_registered [OF k] True
    by (simp add: proceedToRoute_def navigate_def)
next
  case False
  then have "getRouteId routes route = ''''"
    by (simp add: getRouteId_unregistered)
  with False show ?thesis
    by (simp add: proceedToRoute_def navigate_def)
qed

text \<open>
  C8.  In the flexible component, when \<open>makeBooking\<close> runs in the Date or Form step and
  the response carries no payment address, the status \<open>pending\<close> makes the step Pending
  and the render that follows calls \<open>navigate\<close> once, with the id of a route whose path is
  \<open>routes.pending\<close> when such a route is registered, and with the id found for the path
  \<open>/\<close> when none is; the status \<open>confirmed\<close> does the same with Success and
  \<open>routes.confirmed\<close>.  Route ids are not empty (the empty string is how \<open>getRouteId\<close>
  says that it found nothing).
\<close>

theorem terminal_step_navigates:
  assumes guard: "selectedTime st \<noteq> None"
    and before: "currentStep st = Flexible_BookingStep.Date \<or> currentStep st = Flexible_BookingStep.Form"
    and no_redirect: "\<not> has_paymentURL response"
    and ids: "\<forall>p. ('''', p) \<notin> set routes"
  shows
    "(status response = ''pending'' \<longrightarrow>
        currentStep (Flexible_makeBooking (Inr response) st) = Flexible_BookingStep.Pending
        \<and> (\<exists>target.
              navigated (Flexible_render props routes st (Flexible_makeBooking (Inr response) st))
                = navigated st @ [target]
              \<and> ((\<exists>k. (k, routes_pending props) \<in> set routes) \<longrightarrow>
                    (target, routes_pending props) \<in> set routes)
              \<and> (\<not> (\<exists>k. (k, routes_pending props) \<in> set routes) \<longrightarrow>
                    target = getRouteId routes ''/'')))
     \<and> (status response = ''confirmed'' \<longrightarrow>
        currentStep (Flexible_makeBooking (Inr response) st) = Flexible_BookingStep.Success
        \<and> (\<exists>target.
              navigated (Flexible_render props routes st (Flexible_makeBooking (Inr response) st))
                = navigated st @ [target]
              \<and> ((\<exists>k. (k, routes_confirmed props) \<in> set routes) \<longrightarrow>
                    (target, routes_confirmed props) \<in> set routes)
              \<and> (\<not> (\<exists>k. (k, routes_confirmed props) \<in> set routes) \<longrightarrow>
                    target = getRouteId routes ''/'')))"
proof -
  from guard obtain t where t: "selectedTime st = Some t" by auto
  note eq = Flexible_makeBooking_Inr [OF t, of response]
  show ?thesis
  proof (intro conjI impI)
    assume p: "status response = ''pending''"
    let ?st = "st\<lparr>error := None, apiCalls := apiCalls st @ [BookingsRequest],
                currentStep := Flexible_BookingStep.Pending, submiting := False\<rparr>"
    have e: "Flexible_makeBooking (Inr response) st = ?st"
      using p no_redirect by (simp add: eq)
    show "currentStep (Flexible_makeBooking (Inr response) st) = Flexible_BookingStep.Pending"
      by (simp add: e)
    have r: "Flexible_render props routes st ?st = proceedToRoute routes (routes_pending props) ?st"
      using before by (auto simp add: Flexible_render_def Flexible_currentStep_effect_def)
    have n: "navigated ?st = navigated st" by simp
    show "\<exists>target.
              navigated (Flexible_render props routes st (Flexible_makeBooking (Inr response) st))
                = navigated st @ [target]
              \<and> ((\<exists>k. (k, routes_pending props) \<in> set routes) \<longrightarrow>
                    (target, routes_pending props) \<in> set routes)
              \<and> (\<not> (\<exists>k. (k, routes_pending props) \<in> set routes) \<longrightarrow>
                    target = getRouteId routes ''/'')"
      using proceedToRoute_target [OF ids, of "routes_pending props" ?st]
      unfolding e r n .
  next
    assume p: "status response = ''confirmed''"
    let ?st = "st\<lparr>error := None, apiCalls := apiCalls st @ [BookingsRequest],
                currentStep := Flexible_BookingStep.Success, submiting := False\<rparr>"
    have e: "Flexible_makeBooking (Inr response) st = ?st"
      using p no_redirect by (simp add: eq)
    show "currentStep (Flexible_makeBooking (Inr response) st) = Flexible_BookingStep.Success"
      by (simp add: e)
    have r: "Flexible_render props routes st ?st = proceedToRoute routes (routes_confirmed props) ?st"
      using before by (auto simp add: Flexible_render_def Flexible_currentStep_effect_def)
    have n: "navigated ?st = navigated st" by simp
    show "\<exists>target.
              navigated (Flexible_render props routes st (Flexible_makeBooking (Inr response) st))
                = navigated st @ [target]
              \<and> ((\<exists>k. (k, routes_confirmed props) \<in> set routes) \<longrightarrow>
                    (target, routes_confirmed props) \<in> set routes)
              \<and> (\<not> (\<exists>k. (k, routes_confirmed props) \<in> set routes) \<longrightarrow>
                    target = getRouteId routes ''/'')"
      using proceedToRoute_target [OF ids, of "routes_confirmed props" ?st]
      unfolding e r n .
  qed
qed

theorem terminal_step_navigates_witness:
  "selectedTime sample_flexible \<noteq> None
   \<and> (currentStep sample_flexible = Flexible_BookingStep.Date
        \<or> currentStep sample_flexible = Flexible_BookingStep.Form)
   \<and> \<not> has_paymentURL \<lparr>paymentURL = None, status = ''pending''\<rparr>
   \<and> (\<forall>p. ('''', p) \<notin> set sample_routes)
   \<and> status \<lparr>paymentURL = None, status = ''pending''\<rparr> = ''pending''
   \<and> (''wait'', routes_pending sample_props) \<in> set sample_routes
   \<and> currentStep (Flexible_makeBooking (Inr \<lparr>paymentURL = None, status = ''pending''\<rparr>)
         sample_flexible) = Flexible_BookingStep.Pending
   \<and> navigated (Flexible_render sample_props sample_routes sample_flexible
         (Flexible_makeBooking (Inr \<lparr>paymentURL = None, status = ''pending''\<rparr>)
            sample_flexible)) = [''wait'']
   \<and> \<not> (\<exists>k. (k, ''/thanks'') \<in> set sample_routes)
   \<and> navigated (Flexible_render (sample_props\<lparr>routes_confirmed := ''/thanks''\<rparr>)
         sample_routes sample_flexible
         (Flexible_makeBooking (Inr \<lparr>paymentURL = None, status = ''confirmed''\<rparr>)
            sample_flexible)) = [''home'']"
  using
    terminal_step_navigates [where st = sample_flexible and routes = sample_routes
      and props = sample_props and response = "\<lparr>paymentURL = None, status = ''pending''\<rparr>"]
    terminal_step_navigates [where st = sample_flexible and routes = sample_routes
      and props = "sample_props\<lparr>routes_confirmed := ''/thanks''\<rparr>"
      and response = "\<lparr>paymentURL = None, status = ''confirmed''\<rparr>"]
  by (simp add: sample_flexible_def sample_routes_def sample_props_def has_paymentURL_def
      Flexible_makeBooking_def Flexible_render_def Flexible_currentStep_effect_def
      proceedToRoute_def navigate_def)

section \<open>The minimum length of a rental\<close>

lemma totalHours_lt_24:
  "totalHours d < 24 \<longleftrightarrow> (days d * 24 + hours d) * 60 + minutes d < 1440"
proof -
  have key: "(of_int x / 60 < (24::rat)) \<longleftrightarrow> x < 1440" for x :: int
  proof -
    have "(of_int x / 60 < (24::rat)) \<longleftrightarrow> (of_int x :: rat) < of_int 1440"
      by (simp add: divide_less_eq)
    also have "\<dots> \<longleftrightarrow> x < 1440"
      by (simp only: of_int_less_iff)
    finally show ?thesis .
  qed
  have eq: "totalHours d = of_int ((days d * 24 + hours d) * 60 + minutes d) / 60"
    by (simp add: totalHours_def add_divide_distrib)
  show ?thesis
    unfolding eq by (rule key)
qed

lemma js_rem_nonpos: "a \<le> 0 \<Longrightarrow> js_rem a b \<le> 0"
proof -
  assume a: "a \<le> 0"
  have "0 \<le> \<bar>a\<bar> mod \<bar>b\<bar>"
    by (cases "b = 0") simp_all
  with a show ?thesis
    by (simp add: js_rem_def mult_le_0_iff sgn_if)
qed

lemma below_a_day:
  "a < 0 \<Longrightarrow> b \<le> 0 \<Longrightarrow> c \<le> 0 \<Longrightarrow> (a * 24 + b) * 60 + c < (1440::int)"
  by simp

lemma calculateDuration_gate:
  "totalHours (calculateDuration startDateTime endDateTime) < 24
     \<longleftrightarrow> endDateTime - startDateTime < 86400000"
proof (cases "startDateTime \<le> endDateTime")
  case True
  show ?thesis
    unfolding totalHours_lt_24 calculateDuration_total(4) [OF True] by linarith
next
  case False
  define tm where "tm = (endDateTime - startDateTime) div 60000"
  have tm: "tm < 0" using False by (simp add: tm_def div_neg_pos_less0)
  then have h: "tm div 60 < 0" by (simp add: div_neg_pos_less0)
  then have d: "tm div 60 div 24 < 0" by (simp add: div_neg_pos_less0)
  have r1: "js_rem (tm div 60) 24 \<le> 0" using h by (simp add: js_rem_nonpos)
  have r2: "js_rem tm 60 \<le> 0" using tm by (simp add: js_rem_nonpos)
  have cd: "calculateDuration startDateTime endDateTime
      = \<lparr>days = tm div 60 div 24, hours = js_rem (tm div 60) 24, minutes = js_rem tm 60\<rparr>"
    by (simp add: calculateDuration_def Let_def tm_def)
  have "(tm div 60 div 24 * 24 + js_rem (tm div 60) 24) * 60 + js_rem tm 60 < 1440"
    using d r1 r2 by (rule below_a_day)
  then have "totalHours (calculateDuration startDateTime endDateTime) < 24"
    by (simp add: totalHours_lt_24 cd)
  with False show ?thesis by simp
qed

text \<open>
  C9.  In the rental component, when the chosen range, from its start date at its start
  time to its end date at its end time, is shorter than 24 hours, \<open>checkSlotAvailability\<close>
  sets the selected slot to null and does not call the times API; \<open>makeBooking\<close> then
  returns at its guard, so no booking is made.
\<close>

theorem minimum_duration_gate:
  assumes range: "startDate (dateRange st) = Some sd" "endDate (dateRange st) = Some ed"
    and short:
      "setHours ed (fst (split_time (DateRange.endTime (dateRange st))))
           (snd (split_time (DateRange.endTime (dateRange st))))
         - setHours sd (fst (split_time (DateRange.startTime (dateRange st))))
             (snd (split_time (DateRange.startTime (dateRange st))))
       < 24 * 60 * 60 * 1000"
  shows "selectedSlot (checkSlotAvailability setHours getTime props outcome st) = None
     \<and> apiCalls (checkSlotAvailability setHours getTime props outcome st) = apiCalls st
     \<and> Rental_makeBooking booking (checkSlotAvailability setHours getTime props outcome st)
         = checkSlotAvailability setHours getTime props outcome st"
proof -
  have "totalHours (calculateDuration
          (setHours sd (fst (split_time (DateRange.startTime (dateRange st))))
             (snd (split_time (DateRange.startTime (dateRange st)))))
          (setHours ed (fst (split_time (DateRange.endTime (dateRange st))))
             (snd (split_time (DateRange.endTime (dateRange st)))))) < 24"
    using short by (simp add: calculateDuration_gate)
  then have "checkSlotAvailability setHours getTime props outcome st = st\<lparr>selectedSlot := None\<rparr>"
    using range by (simp add: checkSlotAvailability_def Let_def)
  then show ?thesis
    by (simp add: Rental_makeBooking_def)
qed

theorem minimum_duration_gate_witness:
  "startDate (dateRange (sample_rental\<lparr>dateRange :=
       \<lparr>startDate = Some 1717200000000, endDate = Some 1717200000000,
        DateRange.startTime = ''07:00'', DateRange.endTime = ''19:00''\<rparr>\<rparr>))
     = Some 1717200000000
   \<and> utc_setHours 1717200000000 19 0 - utc_setHours 1717200000000 7 0 < 24 * 60 * 60 * 1000
   \<and> selectedSlot (checkSlotAvailability utc_setHours sample_getTime sample_props
         (Inr \<lparr>times = [(''unit-1'', [timeSlot sample_slot])]\<rparr>)
         (sample_rental\<lparr>dateRange :=
            \<lparr>startDate = Some 1717200000000, endDate = Some 1717200000000,
             DateRange.startTime = ''07:00'', DateRange.endTime = ''19:00''\<rparr>\<rparr>)) = None
   \<and> apiCalls (checkSlotAvailability utc_setHours sample_getTime sample_props
         (Inr \<lparr>times = [(''unit-1'', [timeSlot sample_slot])]\<rparr>)
         (sample_rental\<lparr>dateRange :=
            \<lparr>startDate = Some 1717200000000, endDate = Some 1717200000000,
             DateRange.startTime = ''07:00'', DateRange.endTime = ''19:00''\<rparr>\<rparr>)) = []"
  using minimum_duration_gate [where setHours = utc_setHours and getTime = sample_getTime
      and props = sample_props and sd = 1717200000000 and ed = 1717200000000
      and outcome = "Inr \<lparr>times = [(''unit-1'', [timeSlot sample_slot])]\<rparr>"
      and st = "sample_rental\<lparr>dateRange :=
            \<lparr>startDate = Some 1717200000000, endDate = Some 1717200000000,
             DateRange.startTime = ''07:00'', DateRange.endTime = ''19:00''\<rparr>\<rparr>"]
  by (simp add: sample_rental_def utc_setHours_def split_time_def read_digits_def)

section \<open>The slot matcher\<close>

lemma scanSlots_None:
  "scanSlots getTime start rid slots = None
     \<longleftrightarrow> (\<forall>slot \<in> set slots. \<not> within_minute getTime start slot)"
  by (induction slots) auto

lemma scanSlots_Some:
  "scanSlots getTime start rid slots = Some found \<Longrightarrow>
     resourceID found = rid
     \<and> (\<exists>a b. slots = a @ timeSlot found # b
            \<and> (\<forall>slot \<in> set a. \<not> within_minute getTime start slot)
            \<and> within_minute getTime start (timeSlot found))"
proof (induction slots)
  case Nil
  then show ?case by simp
next
  case (Cons slot slots)
  show ?case
  proof (cases "within_minute getTime start slot")
    case True
    with Cons.prems have "found = \<lparr>timeSlot = slot, resourceID = rid\<rparr>" by simp
    then have "resourceID found = rid" and "slot # slots = [] @ timeSlot found # slots" by simp_all
    moreover have "\<forall>x \<in> set []. \<not> within_minute getTime start x" by simp
    moreover have "within_minute getTime start (timeSlot found)"
      using True \<open>found = \<lparr>timeSlot = slot, resourceID = rid\<rparr>\<close> by simp
    ultimately show ?thesis by (intro conjI exI)
  next
    case False
    with Cons.prems have "scanSlots getTime start rid slots = Some found" by simp
    from Cons.IH [OF this] obtain a b where
      r: "resourceID found = rid" and s: "slots = a @ timeSlot found # b"
      and n: "\<forall>slot \<in> set a. \<not> within_minute getTime start slot"
      and w: "within_minute getTime start (timeSlot found)" by blast
    have "slot # slots = (slot # a) @ timeSlot found # b" using s by simp
    moreover have "\<forall>x \<in> set (slot # a). \<not> within_minute getTime start x"
      using n False by simp
    ultimately show ?thesis using r w by (intro conjI exI)
  qed
qed

lemma scanResources_None:
  "scanResources getTime start ts = None
     \<longleftrightarrow> (\<forall>(rid, slots) \<in> set ts. \<forall>slot \<in> set slots. \<not> within_minute getTime start slot)"
  by (induction ts) (auto simp add: scanSlots_None split: option.splits)

lemma scanResources_Some:
  "scanResources getTime start ts = Some found \<Longrightarrow>
     \<exists>pre slots post a b.
       ts = pre @ (resourceID found, slots) # post
       \<and> (\<forall>(rid, ss) \<in> set pre. \<forall>slot \<in> set ss. \<not> within_minute getTime start slot)
       \<and> slots = a @ timeSlot found # b
       \<and> (\<forall>slot \<in> set a. \<not> within_minute getTime start slot)
       \<and> within_minute getTime start (timeSlot found)"
proof (induction ts)
  case Nil
  then show ?case by simp
next
  case (Cons p ts)
  obtain rid slots where p: "p = (rid, slots)" by (cases p)
  show ?case
  proof (cases "scanSlots getTime start rid slots")
    case (Some f)
    with Cons.prems p have f: "f = found" by simp
    from scanSlots_Some [OF Some [unfolded f]] obtain a b where
      "resourceID found = rid" "slots = a @ timeSlot found # b"
      "\<forall>slot \<in> set a. \<not> within_minute getTime start slot"
      "within_minute getTime start (timeSlot found)" by blast
    then have "p # ts = [] @ (resourceID found, slots) # ts
       \<and> (\<forall>(rid, ss) \<in> set []. \<forall>slot \<in> set ss. \<not> within_minute getTime start slot)
       \<and> slots = a @ timeSlot found # b
       \<and> (\<forall>slot \<in> set a. \<not> within_minute getTime start slot)
       \<and> within_minute getTime start (timeSlot found)"
      using p by simp
    then show ?thesis by (intro exI)
  next
    case None
    with Cons.prems p have "scanResources getTime start ts = Some found" by simp
    from Cons.IH [OF this] obtain pre ss post a b where
      t: "ts = pre @ (resourceID found, ss) # post"
      and n: "\<forall>(rid, ss) \<in> set pre. \<forall>slot \<in> set ss. \<not> within_minute getTime start slot"
      and rest: "ss = a @ timeSlot found # b"
        "\<forall>slot \<in> set a. \<not> within_minute getTime start slot"
        "within_minute getTime start (timeSlot found)" by blast
    have "p # ts = (p # pre) @ (resourceID found, ss) # post" using t by simp
    moreover have "\<forall>(rid, ss) \<in> set (p # pre). \<forall>slot \<in> set ss. \<not> within_minute getTime start slot"
      using n None p by (simp add: scanSlots_None)
    ultimately show ?thesis using rest by (intro exI conjI)
  qed
qed

lemma first_match_is_earliest:
  assumes "slots = a @ x # b"
    and "\<forall>slot \<in> set a. \<not> within_minute getTime start slot"
    and "sorted (map (\<lambda>slot. getTime (TimeSlot.startTime slot)) slots)"
    and "y \<in> set slots" "within_minute getTime start y"
  shows "getTime (TimeSlot.startTime x) \<le> getTime (TimeSlot.startTime y)"
proof -
  from assms(1,2,4,5) have "y = x \<or> y \<in> set b" by auto
  moreover have "\<forall>z \<in> set b. getTime (TimeSlot.startTime x) \<le> getTime (TimeSlot.startTime z)"
    using assms(3) unfolding assms(1) by (simp add: sorted_append)
  ultimately show ?thesis by auto
qed

lemma checkSlotAvailability_Inr:
  assumes "startDate (dateRange st) = Some sd" "endDate (dateRange st) = Some ed"
    and "companyID props \<noteq> ''''" "serviceID props \<noteq> ''''" "serviceLoaded st"
      "serviceTimezone st \<noteq> ''''"
    and "start = setHours sd (fst (split_time (DateRange.startTime (dateRange st))))
                   (snd (split_time (DateRange.startTime (dateRange st))))"
    and "24 * 60 * 60 * 1000
           \<le> setHours ed (fst (split_time (DateRange.endTime (dateRange st))))
                 (snd (split_time (DateRange.endTime (dateRange st)))) - start"
  shows "checkSlotAvailability setHours getTime props (Inr response) st
     = st\<lparr>apiCalls := apiCalls st @ [ServicesGetTimes],
          selectedSlot := scanResources getTime start (times response)\<rparr>"
proof -
  have "\<not> totalHours (calculateDuration start
          (setHours ed (fst (split_time (DateRange.endTime (dateRange st))))
             (snd (split_time (DateRange.endTime (dateRange st)))))) < 24"
    using assms(8) by (simp add: calculateDuration_gate)
  then show ?thesis
    using assms(1-6) unfolding assms(7)
    by (simp add: checkSlotAvailability_def Let_def)
qed

text \<open>
  C1 as the code has it.  When the guards and the 24-hour gate of \<open>checkSlotAvailability\<close>
  pass and the times API answers, the selected slot is the first slot, scanning the
  resources in the order of the response and the slots of each in the order of its list,
  that starts strictly less than 60000 ms from the requested start; no slot of an earlier
  resource and no earlier slot of the same resource is that close.  When the list of that
  resource is sorted by start, the selected slot is the earliest of that resource's slots
  within the tolerance.  The selected slot is null exactly when no slot of any resource is
  within the tolerance.  The function does not sort.
\<close>

theorem checkSlotAvailability_first_match:
  assumes "startDate (dateRange st) = Some sd" "endDate (dateRange st) = Some ed"
    and "companyID props \<noteq> ''''" "serviceID props \<noteq> ''''" "serviceLoaded st"
      "serviceTimezone st \<noteq> ''''"
    and "start = setHours sd (fst (split_time (DateRange.startTime (dateRange st))))
                   (snd (split_time (DateRange.startTime (dateRange st))))"
    and "24 * 60 * 60 * 1000
           \<le> setHours ed (fst (split_time (DateRange.endTime (dateRange st))))
                 (snd (split_time (DateRange.endTime (dateRange st)))) - start"
  shows
    "(case selectedSlot (checkSlotAvailability setHours getTime props (Inr response) st) of
        None \<Rightarrow>
          \<forall>(rid, slots) \<in> set (times response).
            \<forall>slot \<in> set slots. \<not> within_minute getTime start slot
      | Some found \<Rightarrow>
          \<exists>pre slots post a b.
            times response = pre @ (resourceID found, slots) # post
            \<and> (\<forall>(rid, ss) \<in> set pre. \<forall>slot \<in> set ss. \<not> within_minute getTime start slot)
            \<and> slots = a @ timeSlot found # b
            \<and> (\<forall>slot \<in> set a. \<not> within_minute getTime start slot)
            \<and> within_minute getTime start (timeSlot found)
            \<and> (sorted (map (\<lambda>slot. getTime (TimeSlot.startTime slot)) slots) \<longrightarrow>
                  (\<forall>slot \<in> set slots. within_minute getTime start slot \<longrightarrow>
                     getTime (TimeSlot.startTime (timeSlot found))
                       \<le> getTime (TimeSlot.startTime slot))))"
proof -
  have sel: "selectedSlot (checkSlotAvailability setHours getTime props (Inr response) st)
      = scanResources getTime start (times response)"
    by (simp add: checkSlotAvailability_Inr [OF assms])
  show ?thesis
  proof (cases "scanResources getTime start (times response)")
    case None
    then have "\<forall>(rid, slots) \<in> set (times response).
            \<forall>slot \<in> set slots. \<not> within_minute getTime start slot"
      by (simp add: scanResources_None)
    then show ?thesis
      unfolding sel None by simp
  next
    case (Some found)
    from scanResources_Some [OF Some] obtain pre slots post a b where
      t: "times response = pre @ (resourceID found, slots) # post"
      and n: "\<forall>(rid, ss) \<in> set pre. \<forall>slot \<in> set ss. \<not> within_minute getTime start slot"
      and s: "slots = a @ timeSlot found # b"
      and m: "\<forall>slot \<in> set a. \<not> within_minute getTime start slot"
      and w: "within_minute getTime start (timeSlot found)" by blast
    have e: "sorted (map (\<lambda>slot. getTime (TimeSlot.startTime slot)) slots) \<longrightarrow>
                  (\<forall>slot \<in> set slots. within_minute getTime start slot \<longrightarrow>
                     getTime (TimeSlot.startTime (timeSlot found))
                       \<le> getTime (TimeSlot.startTime slot))"
      using first_match_is_earliest [OF s m] by blast
    have "\<exists>pre slots post a b.
            times response = pre @ (resourceID found, slots) # post
            \<and> (\<forall>(rid, ss) \<in> set pre. \<forall>slot \<in> set ss. \<not> within_minute getTime start slot)
            \<and> slots = a @ timeSlot found # b
            \<and> (\<forall>slot \<in> set a. \<not> within_minute getTime start slot)
            \<and> within_minute getTime start (timeSlot found)
            \<and> (sorted (map (\<lambda>slot. getTime (TimeSlot.startTime slot)) slots) \<longrightarrow>
                  (\<forall>slot \<in> set slots. within_minute getTime start slot \<longrightarrow>
                     getTime (TimeSlot.startTime (timeSlot found))
                       \<le> getTime (TimeSlot.startTime slot)))"
      using t n s m w e by (intro exI conjI)
    then show ?thesis
      unfolding sel Some by simp
  qed
qed

theorem checkSlotAvailability_first_match_witness:
  "startDate (dateRange sample_rental) = Some 1717200000000
   \<and> endDate (dateRange sample_rental) = Some 1717372800000
   \<and> companyID sample_props \<noteq> '''' \<and> serviceID sample_props \<noteq> ''''
   \<and> serviceLoaded sample_rental \<and> serviceTimezone sample_rental \<noteq> ''''
   \<and> 24 * 60 * 60 * 1000 \<le> utc_setHours 1717372800000 7 0 - utc_setHours 1717200000000 7 0
   \<and> selectedSlot (checkSlotAvailability utc_setHours sample_getTime sample_props
         (Inr \<lparr>times = [(''unit-1'', [slot_at ''2024-06-01T09:00:00Z'']),
                          (''unit-2'', [slot_at ''2024-06-01T07:00:00Z''])]\<rparr>)
         sample_rental)
       = Some \<lparr>timeSlot = slot_at ''2024-06-01T07:00:00Z'', resourceID = ''unit-2''\<rparr>
   \<and> (case selectedSlot (checkSlotAvailability utc_setHours sample_getTime sample_props
         (Inr \<lparr>times = [(''unit-1'', [slot_at ''2024-06-01T09:00:00Z'']),
                          (''unit-2'', [slot_at ''2024-06-01T07:00:00Z''])]\<rparr>)
         sample_rental) of
        None \<Rightarrow> False
      | Some found \<Rightarrow>
          within_minute sample_getTime (utc_setHours 1717200000000 7 0) (timeSlot found))"
proof -
  have h1: "startDate (dateRange sample_rental) = Some 1717200000000"
    and h2: "endDate (dateRange sample_rental) = Some 1717372800000"
    and h3: "companyID sample_props \<noteq> ''''" and h4: "serviceID sample_props \<noteq> ''''"
    and h5: "serviceLoaded sample_rental" and h6: "serviceTimezone sample_rental \<noteq> ''''"
    by (simp_all add: sample_rental_def sample_props_def)
  have h7: "utc_setHours 1717200000000 7 0
      = utc_setHours 1717200000000
          (fst (split_time (DateRange.startTime (dateRange sample_rental))))
          (snd (split_time (DateRange.startTime (dateRange sample_rental))))"
    by (simp add: sample_rental_def split_time_def read_digits_def)
  have h8: "24 * 60 * 60 * 1000
      \<le> utc_setHours 1717372800000
            (fst (split_time (DateRange.endTime (dateRange sample_rental))))
            (snd (split_time (DateRange.endTime (dateRange sample_rental))))
          - utc_setHours 1717200000000 7 0"
    by (simp add: sample_rental_def split_time_def read_digits_def utc_setHours_def)
  have h9: "24 * 60 * 60 * 1000 \<le> utc_setHours 1717372800000 7 0 - utc_setHours 1717200000000 7 0"
    by (simp add: utc_setHours_def)
  have sel: "selectedSlot (checkSlotAvailability utc_setHours sample_getTime sample_props
         (Inr \<lparr>times = [(''unit-1'', [slot_at ''2024-06-01T09:00:00Z'']),
                          (''unit-2'', [slot_at ''2024-06-01T07:00:00Z''])]\<rparr>)
         sample_rental)
       = Some \<lparr>timeSlot = slot_at ''2024-06-01T07:00:00Z'', resourceID = ''unit-2''\<rparr>"
    by (simp add: checkSlotAvailability_def sample_rental_def sample_props_def utc_setHours_def
      split_time_def read_digits_def calculateDuration_def totalHours_def js_rem_def
      within_minute_def sample_getTime_def slot_at_def Let_def)
  have c: "case selectedSlot (checkSlotAvailability utc_setHours sample_getTime sample_props
         (Inr \<lparr>times = [(''unit-1'', [slot_at ''2024-06-01T09:00:00Z'']),
                          (''unit-2'', [slot_at ''2024-06-01T07:00:00Z''])]\<rparr>)
         sample_rental) of
        None \<Rightarrow> False
      | Some found \<Rightarrow>
          within_minute sample_getTime (utc_setHours 1717200000000 7 0) (timeSlot found)"
    using checkSlotAvailability_first_match [OF h1 h2 h3 h4 h5 h6 h7 h8,
        where getTime = sample_getTime
          and response = "\<lparr>times = [(''unit-1'', [slot_at ''2024-06-01T09:00:00Z'']),
                          (''unit-2'', [slot_at ''2024-06-01T07:00:00Z''])]\<rparr>"]
    unfolding sel by auto
  show ?thesis
    using h1 h2 h3 h4 h5 h6 h9 sel c by (intro conjI)
qed

text \<open>
  C1 as the specification states it fails.  Two resources, each with a one-slot (hence
  sorted) list: the first resource's slot starts 30 seconds after the requested start, the
  second resource's slot at the requested start.  The matcher selects the first
  resource's slot, which is not the earliest slot within the tolerance.  And with both
  slots in one list in the order 07:00:30, 07:00:00 the matcher selects the first of the
  list: it does not sort.
\<close>

theorem checkSlotAvailability_not_earliest:
  "selectedSlot (checkSlotAvailability utc_setHours sample_getTime sample_props
      (Inr \<lparr>times = [(''unit-1'', [slot_at ''2024-06-01T07:00:30Z'']),
                       (''unit-2'', [slot_at ''2024-06-01T07:00:00Z''])]\<rparr>)
      sample_rental)
     = Some \<lparr>timeSlot = slot_at ''2024-06-01T07:00:30Z'', resourceID = ''unit-1''\<rparr>
   \<and> within_minute sample_getTime (utc_setHours 1717200000000 7 0)
         (slot_at ''2024-06-01T07:00:00Z'')
   \<and> sample_getTime (TimeSlot.startTime (slot_at ''2024-06-01T07:00:00Z''))
       < sample_getTime (TimeSlot.startTime (slot_at ''2024-06-01T07:00:30Z''))
   \<and> selectedSlot (checkSlotAvailability utc_setHours sample_getTime sample_props
      (Inr \<lparr>times = [(''unit-1'', [slot_at ''2024-06-01T07:00:30Z'',
                                     slot_at ''2024-06-01T07:00:00Z''])]\<rparr>)
      sample_rental)
     = Some \<lparr>timeSlot = slot_at ''2024-06-01T07:00:30Z'', resourceID = ''unit-1''\<rparr>"
  by (simp add: checkSlotAvailability_def sample_rental_def sample_props_def utc_setHours_def
      split_time_def read_digits_def calculateDuration_def totalHours_def js_rem_def
      within_minute_def sample_getTime_def slot_at_def Let_def)

section \<open>Failure of the availability fetch\<close>

lemma Flexible_fetchAvailableDates_Inl:
  assumes "companyID props \<noteq> ''''" "serviceID props \<noteq> ''''" "serviceLoaded st"
  shows "Flexible_fetchAvailableDates props (Inl err) st
     = st\<lparr>apiCalls := apiCalls st @ [ServicesGetDates],
          console := console st @ [''Failed to load available dates: '' @ err],
          availableDates := []\<rparr>"
  using assms by (simp add: Flexible_fetchAvailableDates_def Let_def)

lemma Rental_fetchAvailableDates_Inl:
  assumes "companyID props \<noteq> ''''" "serviceID props \<noteq> ''''" "serviceLoaded st"
    "serviceTimezone st \<noteq> ''''"
  shows "Rental_fetchAvailableDates props (Inl err) st
     = st\<lparr>apiCalls := apiCalls st @ [ServicesGetDates],
          console := console st @ [''Failed to load available dates: '' @ err],
          availableDates := []\<rparr>"
  using assms by (simp add: Rental_fetchAvailableDates_def Let_def)

text \<open>
  C6 as the code has it.  When the dates request fails, \<open>fetchAvailableDates\<close> catches
  the error, writes it to the console and resets the available dates to the empty list;
  the \<open>error\<close> state, the step and the \<open>loading\<close> flag are left as they were.  With the
  empty list the rental date picker enables no day, and the flexible date picker enables
  every day.
\<close>

theorem fetchAvailableDates_failure:
  assumes "companyID props \<noteq> ''''" "serviceID props \<noteq> ''''"
    and flexible: "serviceLoaded st"
    and rental: "serviceLoaded rst" "serviceTimezone rst \<noteq> ''''"
  shows
    "availableDates (Flexible_fetchAvailableDates props (Inl err) st) = []
     \<and> console (Flexible_fetchAvailableDates props (Inl err) st)
         = console st @ [''Failed to load available dates: '' @ err]
     \<and> error (Flexible_fetchAvailableDates props (Inl err) st) = error st
     \<and> currentStep (Flexible_fetchAvailableDates props (Inl err) st) = currentStep st
     \<and> loading (Flexible_fetchAvailableDates props (Inl err) st) = loading st
     \<and> Flexible_isDateAvailable
           (availableDates (Flexible_fetchAvailableDates props (Inl err) st)) date
     \<and> availableDates (Rental_fetchAvailableDates props (Inl err) rst) = []
     \<and> console (Rental_fetchAvailableDates props (Inl err) rst)
         = console rst @ [''Failed to load available dates: '' @ err]
     \<and> error (Rental_fetchAvailableDates props (Inl err) rst) = error rst
     \<and> currentStep (Rental_fetchAvailableDates props (Inl err) rst) = currentStep rst
     \<and> loading (Rental_fetchAvailableDates props (Inl err) rst) = loading rst
     \<and> \<not> Rental_isDateAvailable
           (availableDates (Rental_fetchAvailableDates props (Inl err) rst)) date"
  by (simp add: Flexible_fetchAvailableDates_Inl [OF assms(1,2) flexible]
      Rental_fetchAvailableDates_Inl [OF assms(1,2) rental]
      Flexible_isDateAvailable_def Rental_isDateAvailable_def)

theorem fetchAvailableDates_failure_witness:
  "companyID sample_props \<noteq> '''' \<and> serviceID sample_props \<noteq> ''''
   \<and> serviceLoaded sample_flexible \<and> serviceLoaded sample_rental
   \<and> serviceTimezone sample_rental \<noteq> ''''
   \<and> availableDates sample_flexible = [''2024-06-01'']
   \<and> availableDates (Flexible_fetchAvailableDates sample_props (Inl ''Error: Network Error'')
         sample_flexible) = []
   \<and> console (Flexible_fetchAvailableDates sample_props (Inl ''Error: Network Error'')
         sample_flexible) = [''Failed to load available dates: Error: Network Error'']
   \<and> availableDates (Rental_fetchAvailableDates sample_props (Inl ''Error: Network Error'')
         sample_rental) = []
   \<and> \<not> Rental_isDateAvailable
         (availableDates (Rental_fetchAvailableDates sample_props (Inl ''Error: Network Error'')
            sample_rental)) \<lparr>getFullYear = 2024, getMonth = 5, getDate = 1\<rparr>"
  using fetchAvailableDates_failure [where props = sample_props and st = sample_flexible
      and rst = sample_rental and err = "''Error: Network Error''"
      and date = "\<lparr>getFullYear = 2024, getMonth = 5, getDate = 1\<rparr>"]
  by (simp add: sample_props_def sample_flexible_def sample_rental_def
      Rental_isDateAvailable_def)

text \<open>
  C6 as the specification states it fails: after a rejected dates request the \<open>error\<close>
  state is still null in both components, and in the flexible component a day of the
  calendar is still enabled.
\<close>

theorem fetchAvailableDates_sets_no_error:
  "error (Flexible_fetchAvailableDates sample_props (Inl ''Error: Network Error'')
      sample_flexible) = None
   \<and> error (Rental_fetchAvailableDates sample_props (Inl ''Error: Network Error'')
      sample_rental) = None
   \<and> Flexible_isDateAvailable
        (availableDates (Flexible_fetchAvailableDates sample_props
           (Inl ''Error: Network Error'') sample_flexible))
        \<lparr>getFullYear = 2024, getMonth = 5, getDate = 2\<rparr>"
  by (simp add: Flexible_fetchAvailableDates_def Rental_fetchAvailableDates_def
      sample_props_def sample_flexible_def sample_rental_def Flexible_isDateAvailable_def Let_def)

section \<open>The slots offered for a day\<close>

lemma findIndex_eq_iff:
  "i < length xs \<Longrightarrow>
     findIndex P xs = int i \<longleftrightarrow> P (xs ! i) \<and> (\<forall>j<i. \<not> P (xs ! j))"
proof (induction xs arbitrary: i)
  case Nil
  then show ?case by simp
next
  case (Cons x xs)
  show ?case
  proof (cases i)
    case 0
    have "findIndex P (x # xs) = 0 \<longleftrightarrow> P x"
      by (auto simp add: Let_def)
    with 0 show ?thesis by simp
  next
    case (Suc n)
    with Cons.prems have n: "n < length xs" by simp
    have all: "(\<forall>j<Suc n. \<not> P ((x # xs) ! j)) \<longleftrightarrow> \<not> P x \<and> (\<forall>j<n. \<not> P (xs ! j))"
      by (simp add: All_less_Suc2)
    show ?thesis
    proof (cases "P x")
      case True
      with Suc all show ?thesis by simp
    next
      case False
      have "findIndex P (x # xs) = int (Suc n) \<longleftrightarrow> findIndex P xs = int n"
        using False by (auto simp add: Let_def)
      also have "\<dots> \<longleftrightarrow> P (xs ! n) \<and> (\<forall>j<n. \<not> P (xs ! j))"
        by (rule Cons.IH [OF n])
      finally show ?thesis
        using False Suc all by simp
    qed
  qed
qed

lemma keep_first_nths:
  "map fst (filter (\<lambda>(time, index). int index = findIndex (\<lambda>t. key t = key time) xs)
              (zip xs [0 ..< length xs]))
   = nths xs {i. \<forall>j<i. key (xs ! j) \<noteq> key (xs ! i)}"
proof -
  have "filter (\<lambda>(time, index). int index = findIndex (\<lambda>t. key t = key time) xs)
              (zip xs [0 ..< length xs])
      = filter (\<lambda>p. snd p \<in> {i. \<forall>j<i. key (xs ! j) \<noteq> key (xs ! i)}) (zip xs [0 ..< length xs])"
  proof (rule filter_cong [OF refl])
    fix p assume "p \<in> set (zip xs [0 ..< length xs])"
    then obtain i where i: "i < length xs" and p: "p = (xs ! i, i)"
      by (auto simp add: set_zip)
    show "(case p of (time, index) \<Rightarrow> int index = findIndex (\<lambda>t. key t = key time) xs)
        = (snd p \<in> {i. \<forall>j<i. key (xs ! j) \<noteq> key (xs ! i)})"
      using findIndex_eq_iff [OF i, of "\<lambda>t. key t = key (xs ! i)"]
      by (auto simp add: p)
  qed
  then show ?thesis by (simp add: nths_def)
qed

lemma distinct_nths_first:
  "(\<And>i j. i \<in> A \<Longrightarrow> j \<in> A \<Longrightarrow> i < j \<Longrightarrow> j < length ys \<Longrightarrow> ys ! i \<noteq> ys ! j)
     \<Longrightarrow> distinct (nths ys A)"
proof (induction ys rule: rev_induct)
  case Nil
  then show ?case by simp
next
  case (snoc y ys)
  have hyp: "ys ! i \<noteq> ys ! j" if "i \<in> A" "j \<in> A" "i < j" "j < length ys" for i j
    using snoc.prems [of i j] that by (simp add: nth_append)
  have d: "distinct (nths ys A)"
    by (rule snoc.IH) (rule hyp)
  have "y \<notin> set (nths ys A)" if "length ys \<in> A"
  proof
    assume "y \<in> set (nths ys A)"
    then obtain i where i: "i < length ys" "i \<in> A" "y = ys ! i"
      by (auto simp add: set_nths)
    from snoc.prems [of i "length ys"] i that show False
      by (simp add: nth_append)
  qed
  with d show ?case
    by (simp add: nths_append)
qed

lemma first_index_exists:
  assumes "k < length xs"
  shows "\<exists>i\<le>k. key (xs ! i) = key (xs ! k) \<and> (\<forall>j<i. key (xs ! j) \<noteq> key (xs ! i))"
proof -
  define i where "i = (LEAST i. key (xs ! i) = key (xs ! k))"
  have 1: "key (xs ! i) = key (xs ! k)"
    unfolding i_def by (rule LeastI [of _ k]) simp
  have 2: "i \<le> k"
    unfolding i_def by (rule Least_le) simp
  have 3: "key (xs ! j) \<noteq> key (xs ! i)" if "j < i" for j
    using not_less_Least [of j "\<lambda>i. key (xs ! i) = key (xs ! k)"] that 1
    by (simp add: i_def)
  from 1 2 3 show ?thesis by blast
qed

lemma formatSlots_nths:
  "formatSlots getTime toLocaleTimeString response
     = nths (sort_key (\<lambda>a. getTime (TimeSlot.startTime (timeSlot a))) (flatMap_timeSlots response))
         {i. \<forall>j<i.
               toLocaleTimeString (TimeSlot.startTime (timeSlot
                 (sort_key (\<lambda>a. getTime (TimeSlot.startTime (timeSlot a)))
                    (flatMap_timeSlots response) ! j)))
               \<noteq> toLocaleTimeString (TimeSlot.startTime (timeSlot
                 (sort_key (\<lambda>a. getTime (TimeSlot.startTime (timeSlot a)))
                    (flatMap_timeSlots response) ! i)))}"
  unfolding formatSlots_def Let_def
  by (rule keep_first_nths
      [where key = "\<lambda>t. toLocaleTimeString (TimeSlot.startTime (timeSlot t))"])

text \<open>
  C10.  For every times response, the list that \<open>formatSlots\<close> returns is sorted
  ascending by start instant and holds no two slots with the same
  \<open>toLocaleTimeString()\<close>.  Its slots are slots of the response; every local time of the
  response is represented, by a slot that starts no later than any other slot of the
  response with that local time, whatever the resource; and each slot kept is the first of
  the sorted array with its local time, the later ones being dropped.
\<close>

theorem formatSlots_sorted_first_per_local_time:
  "sorted (map (\<lambda>a. getTime (TimeSlot.startTime (timeSlot a)))
             (formatSlots getTime toLocaleTimeString response))
   \<and> distinct (map (\<lambda>a. toLocaleTimeString (TimeSlot.startTime (timeSlot a)))
               (formatSlots getTime toLocaleTimeString response))
   \<and> set (formatSlots getTime toLocaleTimeString response) \<subseteq> set (flatMap_timeSlots response)
   \<and> (\<forall>y \<in> set (flatMap_timeSlots response).
         \<exists>x \<in> set (formatSlots getTime toLocaleTimeString response).
           toLocaleTimeString (TimeSlot.startTime (timeSlot x))
             = toLocaleTimeString (TimeSlot.startTime (timeSlot y))
           \<and> getTime (TimeSlot.startTime (timeSlot x))
               \<le> getTime (TimeSlot.startTime (timeSlot y)))
   \<and> (\<forall>x \<in> set (formatSlots getTime toLocaleTimeString response).
         \<forall>y \<in> set (flatMap_timeSlots response).
           toLocaleTimeString (TimeSlot.startTime (timeSlot y))
             = toLocaleTimeString (TimeSlot.startTime (timeSlot x))
           \<longrightarrow> getTime (TimeSlot.startTime (timeSlot x))
               \<le> getTime (TimeSlot.startTime (timeSlot y)))
   \<and> (\<forall>x \<in> set (formatSlots getTime toLocaleTimeString response).
         \<exists>i < length (flatMap_timeSlots response).
           sort_key (\<lambda>a. getTime (TimeSlot.startTime (timeSlot a)))
               (flatMap_timeSlots response) ! i = x
           \<and> (\<forall>j<i.
                 toLocaleTimeString (TimeSlot.startTime (timeSlot
                   (sort_key (\<lambda>a. getTime (TimeSlot.startTime (timeSlot a)))
                      (flatMap_timeSlots response) ! j)))
                 \<noteq> toLocaleTimeString (TimeSlot.startTime (timeSlot x))))"
proof -
  define g where "g = (\<lambda>a :: TimeSlotWithResource. getTime (TimeSlot.startTime (timeSlot a)))"
  define key where
    "key = (\<lambda>a :: TimeSlotWithResource. toLocaleTimeString (TimeSlot.startTime (timeSlot a)))"
  define self where "self = sort_key g (flatMap_timeSlots response)"
  define A where "A = {i. \<forall>j<i. key (self ! j) \<noteq> key (self ! i)}"
  have res: "formatSlots getTime toLocaleTimeString response = nths self A"
    unfolding self_def A_def g_def key_def by (rule formatSlots_nths)
  have srt: "sorted (map g self)"
    unfolding self_def by (rule sorted_sort_key)
  have set_self: "set self = set (flatMap_timeSlots response)"
    unfolding self_def by simp
  have mono: "g (self ! i) \<le> g (self ! k)" if "i \<le> k" "k < length self" for i k
    using sorted_nth_mono [OF srt, of i k] that by simp
  have p1: "sorted (map g (nths self A))"
    using sorted_nths [OF srt, of A] by (simp add: nths_map)
  have p2: "distinct (map key (nths self A))"
  proof -
    have "distinct (nths (map key self) A)"
      by (rule distinct_nths_first) (auto simp add: A_def)
    then show ?thesis by (simp add: nths_map)
  qed
  have p3: "set (nths self A) \<subseteq> set (flatMap_timeSlots response)"
    using set_nths_subset [of self A] by (simp add: set_self)
  have p4: "\<exists>x \<in> set (nths self A). key x = key y \<and> g x \<le> g y"
    if "y \<in> set (flatMap_timeSlots response)" for y
  proof -
    from that obtain k where k: "k < length self" "y = self ! k"
      by (auto simp add: set_self [symmetric] in_set_conv_nth)
    from first_index_exists [OF k(1), of key] obtain i where
      i: "i \<le> k" "key (self ! i) = key (self ! k)" "\<forall>j<i. key (self ! j) \<noteq> key (self ! i)"
      by blast
    have "self ! i \<in> set (nths self A)"
      using i k by (auto simp add: set_nths A_def)
    moreover have "g (self ! i) \<le> g y"
      using mono [OF i(1) k(1)] k(2) by simp
    ultimately show ?thesis using i(2) k(2) by blast
  qed
  have p5: "g x \<le> g y"
    if "x \<in> set (nths self A)" "y \<in> set (flatMap_timeSlots response)" "key y = key x" for x y
  proof -
    from that(1) obtain i where i: "i < length self" "i \<in> A" "x = self ! i"
      by (auto simp add: set_nths)
    from that(2) obtain k where k: "k < length self" "y = self ! k"
      by (auto simp add: set_self [symmetric] in_set_conv_nth)
    have "\<not> k < i"
      using i(2,3) k(2) that(3) by (auto simp add: A_def)
    then have "i \<le> k" by simp
    from mono [OF this k(1)] show ?thesis by (simp add: i k)
  qed
  have p6: "\<exists>i < length (flatMap_timeSlots response).
      self ! i = x \<and> (\<forall>j<i. key (self ! j) \<noteq> key x)"
    if "x \<in> set (nths self A)" for x
  proof -
    from that obtain i where i: "i < length self" "i \<in> A" "x = self ! i"
      by (auto simp add: set_nths)
    have "i < length (flatMap_timeSlots response)"
      using i(1) by (simp add: self_def)
    with i(2,3) show ?thesis by (auto simp add: A_def)
  qed
  show ?thesis
    unfolding res
    using p1 p2 p3 p4 p5 p6 unfolding g_def key_def self_def by blast
qed

theorem formatSlots_sorted_first_per_local_time_witness:
  "formatSlots sample_getTime sample_toLocaleTimeString
      \<lparr>times = [(''unit-1'', [slot_at ''2024-06-01T09:00:00Z'', slot_at ''2024-06-01T07:00:00Z'']),
                    (''unit-2'', [slot_at ''2024-06-01T07:00:00Z'', slot_at ''2024-06-01T07:00:30Z''])]\<rparr>
   = [\<lparr>timeSlot = slot_at ''2024-06-01T07:00:00Z'', resourceID = ''unit-1''\<rparr>,
      \<lparr>timeSlot = slot_at ''2024-06-01T07:00:30Z'', resourceID = ''unit-2''\<rparr>,
      \<lparr>timeSlot = slot_at ''2024-06-01T09:00:00Z'', resourceID = ''unit-1''\<rparr>]
   \<and> sorted (map (\<lambda>a. sample_getTime (TimeSlot.startTime (timeSlot a)))
       (formatSlots sample_getTime sample_toLocaleTimeString
          \<lparr>times = [(''unit-1'', [slot_at ''2024-06-01T09:00:00Z'', slot_at ''2024-06-01T07:00:00Z'']),
                    (''unit-2'', [slot_at ''2024-06-01T07:00:00Z'', slot_at ''2024-06-01T07:00:30Z''])]\<rparr>))
   \<and> distinct (map (\<lambda>a. sample_toLocaleTimeString (TimeSlot.startTime (timeSlot a)))
       (formatSlots sample_getTime sample_toLocaleTimeString
          \<lparr>times = [(''unit-1'', [slot_at ''2024-06-01T09:00:00Z'', slot_at ''2024-06-01T07:00:00Z'']),
                    (''unit-2'', [slot_at ''2024-06-01T07:00:00Z'', slot_at ''2024-06-01T07:00:30Z''])]\<rparr>))
   \<and> set (formatSlots sample_getTime sample_toLocaleTimeString
          \<lparr>times = [(''unit-1'', [slot_at ''2024-06-01T09:00:00Z'', slot_at ''2024-06-01T07:00:00Z'']),
                    (''unit-2'', [slot_at ''2024-06-01T07:00:00Z'', slot_at ''2024-06-01T07:00:30Z''])]\<rparr>)
       \<subseteq> set (flatMap_timeSlots
          \<lparr>times = [(''unit-1'', [slot_at ''2024-06-01T09:00:00Z'', slot_at ''2024-06-01T07:00:00Z'']),
                    (''unit-2'', [slot_at ''2024-06-01T07:00:00Z'', slot_at ''2024-06-01T07:00:30Z''])]\<rparr>)"
proof -
  have e: "formatSlots sample_getTime sample_toLocaleTimeString
      \<lparr>times = [(''unit-1'', [slot_at ''2024-06-01T09:00:00Z'', slot_at ''2024-06-01T07:00:00Z'']),
                    (''unit-2'', [slot_at ''2024-06-01T07:00:00Z'', slot_at ''2024-06-01T07:00:30Z''])]\<rparr>
   = [\<lparr>timeSlot = slot_at ''2024-06-01T07:00:00Z'', resourceID = ''unit-1''\<rparr>,
      \<lparr>timeSlot = slot_at ''2024-06-01T07:00:30Z'', resourceID = ''unit-2''\<rparr>,
      \<lparr>timeSlot = slot_at ''2024-06-01T09:00:00Z'', resourceID = ''unit-1''\<rparr>]"
    by code_simp
  from e formatSlots_sorted_first_per_local_time
    [where getTime = sample_getTime and toLocaleTimeString = sample_toLocaleTimeString
       and response = "\<lparr>times = [(''unit-1'', [slot_at ''2024-06-01T09:00:00Z'', slot_at ''2024-06-01T07:00:00Z'']),
                    (''unit-2'', [slot_at ''2024-06-01T07:00:00Z'', slot_at ''2024-06-01T07:00:30Z''])]\<rparr>"]
  show ?thesis by blast
qed

section \<open>The form validator\<close>

lemma validateField_error_iff:
  "validateField URL_parses isNaN field value \<noteq> None \<longleftrightarrow>
     required field
     \<and> ((\<not> truthy value \<or> value_length value = 0)
          \<or> (type field = Url \<and> \<not> URL_parses (toString value))
          \<or> (type field = Number \<and> isNaN (toString value))
          \<or> (type field = Phone \<and> \<not> phone_pattern (toString value)))"
  by (cases "type field") (auto simp add: validateField_def)

lemma validateField_message:
  "validateField URL_parses isNaN field value = Some message \<Longrightarrow> message \<noteq> ''''"
  by (cases "type field") (auto simp add: validateField_def split: if_splits)

lemma validateForm_field_unfold:
  "validateForm_field URL_parses isNaN fv acc field =
     (case validateField URL_parses isNaN field (field_value fv field) of
        None \<Rightarrow> acc
      | Some message \<Rightarrow> ((fst acc)(labelText field \<mapsto> message), False))"
  by (auto simp add: validateForm_field_def dest: validateField_message split: option.splits)

lemma foldl_validateForm_errors:
  "fst (foldl (validateForm_field URL_parses isNaN fv) acc fs) label \<noteq> None \<longleftrightarrow>
     fst acc label \<noteq> None
     \<or> (\<exists>f \<in> set fs. labelText f = label
           \<and> validateField URL_parses isNaN f (field_value fv f) \<noteq> None)"
proof (induction fs arbitrary: acc)
  case Nil
  then show ?case by simp
next
  case (Cons f fs)
  show ?case
    unfolding foldl_Cons Cons.IH
    by (cases "validateField URL_parses isNaN f (field_value fv f)")
      (auto simp add: validateForm_field_unfold)
qed

lemma foldl_validateForm_isValid:
  "snd (foldl (validateForm_field URL_parses isNaN fv) acc fs) \<longleftrightarrow>
     snd acc \<and> (\<forall>f \<in> set fs. validateField URL_parses isNaN f (field_value fv f) = None)"
proof (induction fs arbitrary: acc)
  case Nil
  then show ?case by simp
next
  case (Cons f fs)
  show ?case
    unfolding foldl_Cons Cons.IH
    by (cases "validateField URL_parses isNaN f (field_value fv f)")
      (auto simp add: validateForm_field_unfold)
qed

text \<open>
  C2 as the code has it.  \<open>validateField\<close> gives an error exactly when the field is
  required and either its value is empty or its type rule fails: a url that does not
  parse, a number that is NaN, a phone number that does not match the pattern.  A required
  field with an empty value gets its \<open>errorText\<close> (or the default text); a field that is not
  required gets no error, whatever its type and value.  \<open>validateForm\<close> records an error
  under a label exactly when a field with that label gives one, is valid exactly when no
  field gives one, and keeps the same errors in the form's state.
\<close>

theorem validation_rules:
  "(validateField URL_parses isNaN field v \<noteq> None \<longleftrightarrow>
      required field
      \<and> ((\<not> truthy v \<or> value_length v = 0)
           \<or> (type field = Url \<and> \<not> URL_parses (toString v))
           \<or> (type field = Number \<and> isNaN (toString v))
           \<or> (type field = Phone \<and> \<not> phone_pattern (toString v))))
   \<and> (required field \<and> (\<not> truthy v \<or> value_length v = 0) \<longrightarrow>
        validateField URL_parses isNaN field v
          = Some (if errorText field \<noteq> '''' then errorText field else ''This field is required''))
   \<and> (\<not> required field \<longrightarrow> validateField URL_parses isNaN field v = None)
   \<and> (errors (fst (validateForm URL_parses isNaN fv)) label \<noteq> None \<longleftrightarrow>
        (\<exists>f \<in> set (guestFields fv @ props_fields fv). labelText f = label
           \<and> validateField URL_parses isNaN f (field_value fv f) \<noteq> None))
   \<and> (isValid (fst (validateForm URL_parses isNaN fv)) \<longleftrightarrow>
        (\<forall>f \<in> set (guestFields fv @ props_fields fv).
           validateField URL_parses isNaN f (field_value fv f) = None))
   \<and> formErrors (snd (validateForm URL_parses isNaN fv))
       = errors (fst (validateForm URL_parses isNaN fv))"
proof (intro conjI)
  show "validateField URL_parses isNaN field v \<noteq> None \<longleftrightarrow>
      required field
      \<and> ((\<not> truthy v \<or> value_length v = 0)
           \<or> (type field = Url \<and> \<not> URL_parses (toString v))
           \<or> (type field = Number \<and> isNaN (toString v))
           \<or> (type field = Phone \<and> \<not> phone_pattern (toString v)))"
    by (rule validateField_error_iff)
  show "required field \<and> (\<not> truthy v \<or> value_length v = 0) \<longrightarrow>
        validateField URL_parses isNaN field v
          = Some (if errorText field \<noteq> '''' then errorText field else ''This field is required'')"
    by (simp add: validateField_def)
  show "\<not> required field \<longrightarrow> validateField URL_parses isNaN field v = None"
    by (simp add: validateField_def)
  show "errors (fst (validateForm URL_parses isNaN fv)) label \<noteq> None \<longleftrightarrow>
        (\<exists>f \<in> set (guestFields fv @ props_fields fv). labelText f = label
           \<and> validateField URL_parses isNaN f (field_value fv f) \<noteq> None)"
    using foldl_validateForm_errors
      [of URL_parses isNaN fv "(Map.empty, True)" "guestFields fv @ props_fields fv" label]
    by (simp add: validateForm_def Let_def)
  show "isValid (fst (validateForm URL_parses isNaN fv)) \<longleftrightarrow>
        (\<forall>f \<in> set (guestFields fv @ props_fields fv).
           validateField URL_parses isNaN f (field_value fv f) = None)"
    using foldl_validateForm_isValid
      [of URL_parses isNaN fv "(Map.empty, True)" "guestFields fv @ props_fields fv"]
    by (simp add: validateForm_def Let_def)
  show "formErrors (snd (validateForm URL_parses isNaN fv))
       = errors (fst (validateForm URL_parses isNaN fv))"
    by (simp add: validateForm_def Let_def)
qed

theorem validation_rules_witness:
  "required (sample_field Phone True ''phone'')
   \<and> type (sample_field Phone True ''phone'') = Phone
   \<and> \<not> phone_pattern (toString (Str ''abc''))
   \<and> validateField sample_URL_parses sample_isNaN (sample_field Phone True ''phone'')
         (Str ''abc'') \<noteq> None
   \<and> validateField sample_URL_parses sample_isNaN (sample_field Phone True ''phone'')
         (Str '''') = Some ''This field is required''
   \<and> sample_field Phone True ''phone'' \<in> set (guestFields sample_form @ props_fields sample_form)
   \<and> field_value sample_form (sample_field Phone True ''phone'') = Str ''abc''
   \<and> errors (fst (validateForm sample_URL_parses sample_isNaN sample_form)) ''phone'' \<noteq> None
   \<and> \<not> isValid (fst (validateForm sample_URL_parses sample_isNaN sample_form))
   \<and> \<not> required (sample_field Url False ''site'')
   \<and> validateField sample_URL_parses sample_isNaN (sample_field Url False ''site'')
         (Str ''not a url'') = None"
  using
    validation_rules [where URL_parses = sample_URL_parses and isNaN = sample_isNaN
      and field = "sample_field Phone True ''phone''" and v = "Str ''abc''"
      and fv = sample_form and label = "''phone''"]
    validation_rules [where URL_parses = sample_URL_parses and isNaN = sample_isNaN
      and field = "sample_field Phone True ''phone''" and v = "Str ''''"
      and fv = sample_form and label = "''phone''"]
    validation_rules [where URL_parses = sample_URL_parses and isNaN = sample_isNaN
      and field = "sample_field Url False ''site''" and v = "Str ''not a url''"
      and fv = sample_form and label = "''site''"]
  by (simp add: sample_field_def sample_form_def phone_pattern_def phone_char_def is_digit_def
      is_space_def field_value_def isGuestField_def lookup_value_def guestFields_def
      validateField_def)

text \<open>
  C2 as the specification states it fails: an optional phone field whose value does not
  match the phone pattern, an optional url field whose value does not parse and an
  optional number field whose value is not a number give no error, and \<open>validateForm\<close>
  records nothing under the label of such a field.
\<close>

theorem validateField_optional_not_checked:
  "\<not> required (sample_field Phone False ''phone'')
   \<and> \<not> phone_pattern ''abc''
   \<and> validateField sample_URL_parses sample_isNaN (sample_field Phone False ''phone'') (Str ''abc'')
       = None
   \<and> \<not> sample_URL_parses ''not a url''
   \<and> validateField sample_URL_parses sample_isNaN (sample_field Url False ''site'')
         (Str ''not a url'') = None
   \<and> sample_isNaN ''abc''
   \<and> validateField sample_URL_parses sample_isNaN (sample_field Number False ''count'') (Str ''abc'')
       = None
   \<and> errors (fst (validateForm sample_URL_parses sample_isNaN sample_form)) ''site'' = None"
  by (simp add: validateField_def sample_field_def sample_URL_parses_def sample_isNaN_def
      phone_pattern_def phone_char_def is_digit_def is_space_def validateForm_def
      validateForm_field_def field_value_def isGuestField_def lookup_value_def guestFields_def
      sample_form_def Let_def)


end
